theory Spec2Isabelle
  imports Main
begin

section \<open>Data model\<close>

text \<open>
  The controller \<^verbatim>\<open>src/controllers/batchHistoryController.js\<close> works on five
  database tables through the Prisma client: students, batches (each with its course),
  fees, payments and batch-history rows. A row is a record; a table is the list of its
  rows in storage order, new rows going to the end. Identifiers and free text are
  strings, amounts and counters are integers (the arithmetic the controller does on them
  is \<open>+\<close>, \<open>-\<close>, comparison and \<open>Math.max\<close>, and occupancy counters are allowed
  to go below zero by \<open>decrement\<close>). Only the columns the controller reads or
  writes are kept.
\<close>

type_synonym ident = string

datatype fee_status = PENDING | ACTIVE | PAID | INACTIVE | CANCELLED

record student =
  s_id :: ident
  s_name :: string
  currentBatchId :: ident

record course =
  baseFee :: int

record batch =
  b_id :: ident
  b_name :: string
  slotLimit :: int
  currentCount :: int
  course :: course

record fee =
  f_id :: ident
  f_studentId :: ident
  f_batchId :: ident
  totalCourseFee :: int
  finalFee :: int
  balanceAmount :: int
  advanceAmount :: "int option"
  f_status :: fee_status
  f_transferId :: "ident option"

record payment =
  p_id :: ident
  p_studentId :: ident
  p_feeId :: ident
  amount :: int
  p_status :: string

record batch_history =
  h_id :: ident
  h_studentId :: ident
  fromBatchId :: ident
  toBatchId :: ident
  h_changeDate :: string
  h_reason :: string
  h_transferId :: ident
  feeIdFrom :: ident
  feeIdTo :: ident
  feeManageMode :: string
  createdAt :: nat

record db =
  students :: "student list"
  batches :: "batch list"
  fees :: "fee list"
  payments :: "payment list"
  histories :: "batch_history list"

text \<open>
  Values that come from outside the controller's logic during one request: the
  primary keys the storage layer gives to the fee and history rows it inserts, the
  \<^verbatim>\<open>crypto.randomUUID()\<close> minted as \<open>transferId\<close>, and the clock value stored
  as \<open>createdAt\<close> of an inserted history row.
\<close>

record gen =
  newFeeId :: ident
  newHistoryId :: ident
  transferId :: ident
  now :: nat

text \<open>The two request bodies.\<close>

record switch_req =
  sw_studentId :: ident
  sw_fromBatchId :: ident
  sw_toBatchId :: ident
  sw_changeDate :: string
  sw_reason :: string
  sw_feeAction :: string

record edit_req =
  ed_studentId :: ident
  ed_batchHistoryId :: ident
  ed_newToBatchId :: ident
  ed_newFeeAction :: string
  ed_changeDate :: string
  ed_reason :: string

text \<open>
  Errors raised inside a transaction. Prisma's \<open>update\<close> and \<open>delete\<close> throw when
  no row has the key, \<open>create\<close> throws when the primary key is taken,
  \<open>delete\<close> throws when another row still refers to the row, and the edit
  throws \<^verbatim>\<open>Error("Active fee missing")\<close> itself; reading a field of \<open>null\<close>
  is a \<open>TypeError\<close>. A transaction that throws is rolled back: the database stays
  as it was before the transaction.
\<close>

datatype tx_error =
  RecordNotFound | UniqueViolation | ForeignKeyViolation | ActiveFeeMissing | TypeError

text \<open>
  What \<^verbatim>\<open>sendResponse(res, code, success, message, data)\<close> sends. The TRANSFER
  branch of \<open>switchBatch\<close> puts whatever its destructuring bound to the name
  \<open>batchHistory\<close> into the payload, so that field holds a row of any table.
\<close>

datatype entity = HistoryRow batch_history | StudentRow student

record payload =
  pl_batchHistory :: entity
  pl_oldFee :: "fee option"
  pl_newFee :: "fee option"
  pl_transferId :: ident

datatype response_data = Null | Payload payload | ErrorObject tx_error

record response =
  statusCode :: nat
  success :: bool
  message :: string
  data :: response_data

definition sendResponse :: "nat \<Rightarrow> bool \<Rightarrow> string \<Rightarrow> response_data \<Rightarrow> response" where
  "sendResponse c s m d = \<lparr>statusCode = c, success = s, message = m, data = d\<rparr>"

section \<open>Storage operations\<close>

text \<open>
  \<open>findUnique\<close> gives the row with the key or nothing, \<open>update\<close> changes the
  row with the key and returns it as changed, \<open>create\<close> appends a row and returns
  it, \<open>delete\<close> removes the row with the key, \<open>updateMany\<close> changes every row
  that matches and never fails, and \<open>findFirst\<close> without \<open>orderBy\<close> gives the
  first matching row in storage order. The schema is not among the sources: of the
  relations between the tables the one from a payment to its fee, which
  \<^verbatim>\<open>include: { payments: true }\<close> shows, is kept on \<open>delete\<close>; the relation
  from a batch to its course is taken as required.
\<close>

definition updateRows :: "('a \<Rightarrow> bool) \<Rightarrow> ('a \<Rightarrow> 'a) \<Rightarrow> 'a list \<Rightarrow> 'a list" where
  "updateRows P f xs = map (\<lambda>r. if P r then f r else r) xs"

definition tx_bind :: "tx_error + 'a \<Rightarrow> ('a \<Rightarrow> tx_error + 'b) \<Rightarrow> tx_error + 'b" where
  "tx_bind m f = (case m of Inl e \<Rightarrow> Inl e | Inr x \<Rightarrow> f x)"

definition student_findUnique :: "db \<Rightarrow> ident \<Rightarrow> student option" where
  "student_findUnique d k = find (\<lambda>s. s_id s = k) (students d)"

definition student_update ::
  "ident \<Rightarrow> (student \<Rightarrow> student) \<Rightarrow> db \<Rightarrow> tx_error + db \<times> student" where
  "student_update k f d =
     (case student_findUnique d k of
        None \<Rightarrow> Inl RecordNotFound
      | Some r \<Rightarrow>
          Inr (d\<lparr>students := updateRows (\<lambda>s. s_id s = k) f (students d)\<rparr>, f r))"

definition batch_findUnique :: "db \<Rightarrow> ident \<Rightarrow> batch option" where
  "batch_findUnique d k = find (\<lambda>b. b_id b = k) (batches d)"

definition batch_update ::
  "ident \<Rightarrow> (batch \<Rightarrow> batch) \<Rightarrow> db \<Rightarrow> tx_error + db \<times> batch" where
  "batch_update k f d =
     (case batch_findUnique d k of
        None \<Rightarrow> Inl RecordNotFound
      | Some r \<Rightarrow>
          Inr (d\<lparr>batches := updateRows (\<lambda>b. b_id b = k) f (batches d)\<rparr>, f r))"

definition increment :: "batch \<Rightarrow> batch" where
  "increment b = b\<lparr>currentCount := currentCount b + 1\<rparr>"

definition decrement :: "batch \<Rightarrow> batch" where
  "decrement b = b\<lparr>currentCount := currentCount b - 1\<rparr>"

definition fee_findUnique :: "db \<Rightarrow> ident \<Rightarrow> fee option" where
  "fee_findUnique d k = find (\<lambda>f. f_id f = k) (fees d)"

definition fee_findFirst :: "db \<Rightarrow> (fee \<Rightarrow> bool) \<Rightarrow> fee option" where
  "fee_findFirst d P = find P (fees d)"

definition fee_create :: "fee \<Rightarrow> db \<Rightarrow> tx_error + db \<times> fee" where
  "fee_create r d =
     (case fee_findUnique d (f_id r) of
        Some _ \<Rightarrow> Inl UniqueViolation
      | None \<Rightarrow> Inr (d\<lparr>fees := fees d @ [r]\<rparr>, r))"

definition fee_update :: "ident \<Rightarrow> (fee \<Rightarrow> fee) \<Rightarrow> db \<Rightarrow> tx_error + db \<times> fee" where
  "fee_update k f d =
     (case fee_findUnique d k of
        None \<Rightarrow> Inl RecordNotFound
      | Some r0 \<Rightarrow>
          Inr (d\<lparr>fees := updateRows (\<lambda>r. f_id r = k) f (fees d)\<rparr>, f r0))"

text \<open>
  Deleting a fee that payments still point at is refused by the store (the relation
  from a payment to its fee), so \<open>delete\<close> throws then.
\<close>

definition fee_delete :: "ident \<Rightarrow> db \<Rightarrow> tx_error + db" where
  "fee_delete k d =
     (case fee_findUnique d k of
        None \<Rightarrow> Inl RecordNotFound
      | Some _ \<Rightarrow>
          (case find (\<lambda>p. p_feeId p = k) (payments d) of
             Some _ \<Rightarrow> Inl ForeignKeyViolation
           | None \<Rightarrow> Inr (d\<lparr>fees := filter (\<lambda>r. f_id r \<noteq> k) (fees d)\<rparr>)))"

text \<open>\<^verbatim>\<open>include: { payments: true }\<close>: the payments whose \<open>feeId\<close> is the fee's id.\<close>

definition fee_payments :: "db \<Rightarrow> fee \<Rightarrow> payment list" where
  "fee_payments d f = filter (\<lambda>p. p_feeId p = f_id f) (payments d)"

definition payment_updateMany :: "(payment \<Rightarrow> bool) \<Rightarrow> (payment \<Rightarrow> payment) \<Rightarrow> db \<Rightarrow> db" where
  "payment_updateMany P f d = d\<lparr>payments := updateRows P f (payments d)\<rparr>"

text \<open>\<^verbatim>\<open>NOT: { status: { in: ["CANCELLED", "INACTIVE"] } }\<close>\<close>

definition notCancelledOrInactive :: "payment \<Rightarrow> bool" where
  "notCancelledOrInactive p = (p_status p \<notin> set [''CANCELLED'', ''INACTIVE''])"

definition history_findUnique :: "db \<Rightarrow> ident \<Rightarrow> batch_history option" where
  "history_findUnique d k = find (\<lambda>h. h_id h = k) (histories d)"

definition history_create :: "batch_history \<Rightarrow> db \<Rightarrow> tx_error + db \<times> batch_history" where
  "history_create r d =
     (case history_findUnique d (h_id r) of
        Some _ \<Rightarrow> Inl UniqueViolation
      | None \<Rightarrow> Inr (d\<lparr>histories := histories d @ [r]\<rparr>, r))"

definition history_delete :: "ident \<Rightarrow> db \<Rightarrow> tx_error + db" where
  "history_delete k d =
     (case history_findUnique d k of
        None \<Rightarrow> Inl RecordNotFound
      | Some _ \<Rightarrow> Inr (d\<lparr>histories := filter (\<lambda>r. h_id r \<noteq> k) (histories d)\<rparr>))"

text \<open>
  \<^verbatim>\<open>findFirst({ where: { studentId }, orderBy: { createdAt: "desc" } })\<close>: among the
  student's rows one with the greatest \<open>createdAt\<close>; of several with the same
  \<open>createdAt\<close> the one stored first.
\<close>

fun latestOf :: "batch_history list \<Rightarrow> batch_history option" where
  "latestOf [] = None"
| "latestOf (h # hs) =
     (case latestOf hs of
        None \<Rightarrow> Some h
      | Some h' \<Rightarrow> if createdAt h < createdAt h' then Some h' else Some h)"

definition history_findLatest :: "db \<Rightarrow> ident \<Rightarrow> batch_history option" where
  "history_findLatest d sid = latestOf (filter (\<lambda>h. h_studentId h = sid) (histories d))"

section \<open>The switch: \<open>switchBatch\<close>\<close>

text \<open>
  \<^verbatim>\<open>payments.reduce((sum, p) => sum + p.amount, 0) || 0\<close>, the expression both
  handlers use for the amount paid: on integers \<open>x || 0\<close> is \<open>x\<close>.
\<close>

definition reduceAmounts :: "payment list \<Rightarrow> int" where
  "reduceAmounts ps = foldl (\<lambda>sum p. sum + amount p) 0 ps"

text \<open>
  Modelled from the spec: \<^verbatim>\<open>src/utils/TryCatch.js\<close>, the wrapper around both
  handlers, is not among the sources. An exception that leaves a handler becomes a
  server error (500) with no payload.
\<close>

definition uncaught :: response where
  "uncaught = sendResponse 500 False ''Internal Server Error'' Null"

text \<open>
  TRANSFER: the array form of \<^verbatim>\<open>prisma.$transaction\<close>, four operations whose
  results come back in order.
\<close>

definition transferTx ::
  "gen \<Rightarrow> switch_req \<Rightarrow> fee \<Rightarrow> db \<Rightarrow> tx_error + db \<times> batch_history \<times> student \<times> batch \<times> batch" where
  "transferTx g rq oldFee d =
     tx_bind (history_create
       \<lparr>h_id = newHistoryId g, h_studentId = sw_studentId rq,
        fromBatchId = sw_fromBatchId rq, toBatchId = sw_toBatchId rq,
        h_changeDate = sw_changeDate rq, h_reason = sw_reason rq,
        h_transferId = transferId g, feeIdFrom = f_id oldFee, feeIdTo = f_id oldFee,
        feeManageMode = ''TRANSFER'', createdAt = now g\<rparr> d) (\<lambda>(d1, r1).
     tx_bind (student_update (sw_studentId rq)
       (\<lambda>s. s\<lparr>currentBatchId := sw_toBatchId rq\<rparr>) d1) (\<lambda>(d2, r2).
     tx_bind (batch_update (sw_fromBatchId rq) decrement d2) (\<lambda>(d3, r3).
     tx_bind (batch_update (sw_toBatchId rq) increment d3) (\<lambda>(d4, r4).
     Inr (d4, r1, r2, r3, r4)))))"

text \<open>
  \<^verbatim>\<open>const [updatedFee, batchHistory] = await prisma.$transaction([...])\<close>: the
  name \<open>batchHistory\<close> is bound to the second result, the updated student row.
\<close>

definition switchTransfer :: "gen \<Rightarrow> switch_req \<Rightarrow> fee \<Rightarrow> db \<Rightarrow> db \<times> response" where
  "switchTransfer g rq oldFee d =
     (case transferTx g rq oldFee d of
        Inl e \<Rightarrow> (d, uncaught)
      | Inr (d', updatedFee, batchHistory, _) \<Rightarrow>
          (d', sendResponse 200 True ''Batch switched successfully''
             (Payload \<lparr>pl_batchHistory = StudentRow batchHistory, pl_oldFee = None, pl_newFee = None,
                       pl_transferId = transferId g\<rparr>)))"

definition newFeeTx ::
  "gen \<Rightarrow> switch_req \<Rightarrow> batch \<Rightarrow> fee \<Rightarrow> int \<Rightarrow> db \<Rightarrow> tx_error + db \<times> fee \<times> fee \<times> batch_history" where
  "newFeeTx g rq toBatch oldFee newFeeAmount d =
     tx_bind (fee_create
       \<lparr>f_id = newFeeId g, f_studentId = sw_studentId rq, f_batchId = sw_toBatchId rq,
        totalCourseFee = baseFee (course toBatch), finalFee = baseFee (course toBatch),
        balanceAmount = newFeeAmount, advanceAmount = advanceAmount oldFee,
        f_status = PENDING, f_transferId = None\<rparr> d) (\<lambda>(d1, newFee).
     tx_bind (history_create
       \<lparr>h_id = newHistoryId g, h_studentId = sw_studentId rq,
        fromBatchId = sw_fromBatchId rq, toBatchId = sw_toBatchId rq,
        h_changeDate = sw_changeDate rq, h_reason = sw_reason rq,
        h_transferId = transferId g, feeIdFrom = f_id oldFee, feeIdTo = f_id newFee,
        feeManageMode = ''NEW_FEE'', createdAt = now g\<rparr> d1) (\<lambda>(d2, batchHistory).
     tx_bind (Inr (payment_updateMany
       (\<lambda>p. p_studentId p = sw_studentId rq \<and> p_feeId p = f_id oldFee
            \<and> notCancelledOrInactive p)
       (\<lambda>p. p\<lparr>p_feeId := f_id newFee\<rparr>) d2)) (\<lambda>d3.
     tx_bind (fee_update (f_id oldFee) (\<lambda>f. f\<lparr>f_status := CANCELLED\<rparr>) d3)
       (\<lambda>(d4, updatedOldFee).
     tx_bind (student_update (sw_studentId rq)
       (\<lambda>s. s\<lparr>currentBatchId := sw_toBatchId rq\<rparr>) d4) (\<lambda>(d5, _).
     tx_bind (batch_update (sw_fromBatchId rq) decrement d5) (\<lambda>(d6, _).
     tx_bind (batch_update (sw_toBatchId rq) increment d6) (\<lambda>(d7, _).
     Inr (d7, newFee, updatedOldFee, batchHistory))))))))"

definition switchNewFee ::
  "gen \<Rightarrow> switch_req \<Rightarrow> batch \<Rightarrow> fee \<Rightarrow> int \<Rightarrow> db \<Rightarrow> db \<times> response" where
  "switchNewFee g rq toBatch oldFee totalPaidOld d =
     (let newFeeAmount = max (baseFee (course toBatch) - totalPaidOld) 0 in
      case newFeeTx g rq toBatch oldFee newFeeAmount d of
        Inl error \<Rightarrow> (d, sendResponse 500 False ''Failed to switch batch'' (ErrorObject error))
      | Inr (d', newFee, updatedOldFee, batchHistory) \<Rightarrow>
          (d', sendResponse 200 True ''Batch switched successfully''
             (Payload \<lparr>pl_batchHistory = HistoryRow batchHistory, pl_oldFee = Some updatedOldFee,
                       pl_newFee = Some newFee, pl_transferId = transferId g\<rparr>)))"

definition splitTx ::
  "gen \<Rightarrow> switch_req \<Rightarrow> batch \<Rightarrow> fee \<Rightarrow> int \<Rightarrow> int \<Rightarrow> db \<Rightarrow> tx_error + db \<times> fee \<times> fee \<times> batch_history" where
  "splitTx g rq toBatch oldFee totalPaidOld adjustedFee d =
     tx_bind (fee_create
       \<lparr>f_id = newFeeId g, f_studentId = sw_studentId rq, f_batchId = sw_toBatchId rq,
        totalCourseFee = baseFee (course toBatch), finalFee = adjustedFee,
        balanceAmount = adjustedFee, advanceAmount = None,
        f_status = PENDING, f_transferId = Some (transferId g)\<rparr> d) (\<lambda>(d1, newFee).
     let isPaid = (balanceAmount oldFee = 0 \<or> finalFee oldFee \<le> totalPaidOld) in
     tx_bind (fee_update (f_id oldFee)
       (\<lambda>f. f\<lparr>f_status := (if isPaid then PAID else INACTIVE),
               f_transferId := Some (transferId g)\<rparr>) d1) (\<lambda>(d2, updatedOldFee).
     tx_bind (history_create
       \<lparr>h_id = newHistoryId g, h_studentId = sw_studentId rq,
        fromBatchId = sw_fromBatchId rq, toBatchId = sw_toBatchId rq,
        h_changeDate = sw_changeDate rq, h_reason = sw_reason rq,
        h_transferId = transferId g, feeIdFrom = f_id oldFee, feeIdTo = f_id newFee,
        feeManageMode = ''SPLIT'', createdAt = now g\<rparr> d2) (\<lambda>(d3, batchHistory).
     tx_bind (student_update (sw_studentId rq)
       (\<lambda>s. s\<lparr>currentBatchId := sw_toBatchId rq\<rparr>) d3) (\<lambda>(d4, _).
     tx_bind (batch_update (sw_fromBatchId rq) decrement d4) (\<lambda>(d5, _).
     tx_bind (batch_update (sw_toBatchId rq) increment d5) (\<lambda>(d6, _).
     Inr (d6, newFee, updatedOldFee, batchHistory)))))))"

definition switchSplit ::
  "gen \<Rightarrow> switch_req \<Rightarrow> batch \<Rightarrow> fee \<Rightarrow> int \<Rightarrow> db \<Rightarrow> db \<times> response" where
  "switchSplit g rq toBatch oldFee totalPaidOld d =
     (if baseFee (course toBatch) < totalPaidOld then
        (d, sendResponse 400 False
          ''Student has paid more than the new batch fee. Please create a new admission.'' Null)
      else
        let adjustedFee = max (baseFee (course toBatch) - totalPaidOld) 0 in
        case splitTx g rq toBatch oldFee totalPaidOld adjustedFee d of
          Inl error \<Rightarrow>
            (d, sendResponse 500 False ''Failed to switch batch (SPLIT mode)'' (ErrorObject error))
        | Inr (d', newFee, updatedOldFee, batchHistory) \<Rightarrow>
            (d', sendResponse 200 True ''Batch switched (SPLIT mode)''
               (Payload \<lparr>pl_batchHistory = HistoryRow batchHistory, pl_oldFee = Some updatedOldFee,
                         pl_newFee = Some newFee, pl_transferId = transferId g\<rparr>)))"

text \<open>
  The handler. The audit entry and the cache invalidation that follow a committed
  transaction act on collaborators outside the five tables and are left out; the
  source batch row read for the audit text exists whenever the transaction committed,
  since the transaction updates it.
\<close>

definition switchBatch :: "gen \<Rightarrow> switch_req \<Rightarrow> db \<Rightarrow> db \<times> response" where
  "switchBatch g rq d =
     (case student_findUnique d (sw_studentId rq) of
        None \<Rightarrow> (d, sendResponse 404 False ''Student not found'' Null)
      | Some student \<Rightarrow>
        if currentBatchId student \<noteq> sw_fromBatchId rq then
          (d, sendResponse 400 False ''Current batch mismatch'' Null)
        else
          (case batch_findUnique d (sw_toBatchId rq) of
             None \<Rightarrow> (d, sendResponse 404 False ''Target batch not found'' Null)
           | Some toBatch \<Rightarrow>
             if slotLimit toBatch \<le> currentCount toBatch then
               (d, sendResponse 400 False ''Target batch is full'' Null)
             else
               (case fee_findFirst d
                       (\<lambda>f. f_studentId f = sw_studentId rq \<and> f_status f = PENDING) of
                  None \<Rightarrow> (d, sendResponse 404 False ''Old fee record not found'' Null)
                | Some oldFee \<Rightarrow>
                  let totalPaidOld = reduceAmounts (fee_payments d oldFee) in
                  if sw_feeAction rq = ''TRANSFER'' then switchTransfer g rq oldFee d
                  else if sw_feeAction rq = ''NEW_FEE'' then
                    switchNewFee g rq toBatch oldFee totalPaidOld d
                  else if sw_feeAction rq = ''SPLIT'' then
                    switchSplit g rq toBatch oldFee totalPaidOld d
                  else (d, sendResponse 400 False ''Invalid feeAction provided'' Null))))"

section \<open>The edit: \<open>editBatchSwitch\<close>\<close>

text \<open>
  One interactive transaction, in the two steps the source marks. Step 1 reverses the
  switch that the latest history row records and deletes that row.
\<close>

definition reversePreviousSwitch :: "edit_req \<Rightarrow> batch_history \<Rightarrow> db \<Rightarrow> tx_error + db" where
  "reversePreviousSwitch rq latestHistory d =
     (let oldFromBatchId = fromBatchId latestHistory;
          oldToBatchId = toBatchId latestHistory;
          oldFeeFrom = feeIdFrom latestHistory;
          oldFeeTo = feeIdTo latestHistory in
      tx_bind (student_update (ed_studentId rq)
        (\<lambda>s. s\<lparr>currentBatchId := oldFromBatchId\<rparr>) d) (\<lambda>(d1, _).
      tx_bind (batch_update oldFromBatchId increment d1) (\<lambda>(d2, _).
      tx_bind (batch_update oldToBatchId decrement d2) (\<lambda>(d3, _).
      tx_bind
        (if oldFeeFrom \<noteq> oldFeeTo then
           tx_bind (Inr (payment_updateMany
             (\<lambda>p. p_feeId p = oldFeeTo \<and> notCancelledOrInactive p)
             (\<lambda>p. p\<lparr>p_feeId := oldFeeFrom\<rparr>) d3)) (\<lambda>d3a.
           tx_bind (fee_delete oldFeeTo d3a) (\<lambda>d3b.
           tx_bind (fee_update oldFeeFrom (\<lambda>f. f\<lparr>f_status := PENDING\<rparr>) d3b) (\<lambda>(d3c, _).
           Inr d3c)))
         else Inr d3) (\<lambda>d4.
      history_delete (ed_batchHistoryId rq) d4)))))"

text \<open>
  Step 2 applies the new switch for the student row and the open fee found after the
  reversal: three \<open>if\<close> blocks one after the other, then the updates of the student
  and of the two occupancy counters, which are outside the blocks.
\<close>

definition applyNewSwitch ::
  "gen \<Rightarrow> edit_req \<Rightarrow> batch \<Rightarrow> student \<Rightarrow> fee \<Rightarrow> db \<Rightarrow> tx_error + db" where
  "applyNewSwitch g rq toBatch currentStudent activeFee d5 =
     (let totalPaid = reduceAmounts (fee_payments d5 activeFee) in
      tx_bind
        (if ed_newFeeAction rq = ''TRANSFER'' then
           tx_bind (history_create
             \<lparr>h_id = newHistoryId g, h_studentId = ed_studentId rq,
              fromBatchId = currentBatchId currentStudent, toBatchId = ed_newToBatchId rq,
              h_changeDate = ed_changeDate rq, h_reason = ed_reason rq,
              h_transferId = transferId g, feeIdFrom = f_id activeFee,
              feeIdTo = f_id activeFee, feeManageMode = ''TRANSFER'',
              createdAt = now g\<rparr> d5) (\<lambda>(d6, _). Inr d6)
         else Inr d5) (\<lambda>d6.
      tx_bind
        (if ed_newFeeAction rq = ''NEW_FEE'' then
           tx_bind (fee_create
             \<lparr>f_id = newFeeId g, f_studentId = ed_studentId rq,
              f_batchId = ed_newToBatchId rq, totalCourseFee = baseFee (course toBatch),
              finalFee = baseFee (course toBatch),
              balanceAmount = max (baseFee (course toBatch) - totalPaid) 0,
              advanceAmount = None, f_status = PENDING, f_transferId = None\<rparr> d6)
             (\<lambda>(d6a, newFee).
           tx_bind (Inr (payment_updateMany (\<lambda>p. p_feeId p = f_id activeFee)
             (\<lambda>p. p\<lparr>p_feeId := f_id newFee\<rparr>) d6a)) (\<lambda>d6b.
           tx_bind (fee_update (f_id activeFee) (\<lambda>f. f\<lparr>f_status := CANCELLED\<rparr>) d6b)
             (\<lambda>(d6c, _).
           tx_bind (history_create
             \<lparr>h_id = newHistoryId g, h_studentId = ed_studentId rq,
              fromBatchId = currentBatchId currentStudent, toBatchId = ed_newToBatchId rq,
              h_changeDate = ed_changeDate rq, h_reason = ed_reason rq,
              h_transferId = transferId g, feeIdFrom = f_id activeFee,
              feeIdTo = f_id newFee, feeManageMode = ''NEW_FEE'',
              createdAt = now g\<rparr> d6c) (\<lambda>(d6d, _). Inr d6d))))
         else Inr d6) (\<lambda>d7.
      tx_bind
        (if ed_newFeeAction rq = ''SPLIT'' then
           let adjusted = max (baseFee (course toBatch) - totalPaid) 0 in
           tx_bind (fee_create
             \<lparr>f_id = newFeeId g, f_studentId = ed_studentId rq,
              f_batchId = ed_newToBatchId rq, totalCourseFee = baseFee (course toBatch),
              finalFee = adjusted, balanceAmount = adjusted,
              advanceAmount = None, f_status = PENDING, f_transferId = None\<rparr> d7)
             (\<lambda>(d7a, newFee).
           let isPaid = (balanceAmount activeFee = 0 \<or> finalFee activeFee \<le> totalPaid) in
           tx_bind (fee_update (f_id activeFee)
             (\<lambda>f. f\<lparr>f_status := (if isPaid then PAID else INACTIVE)\<rparr>) d7a) (\<lambda>(d7b, _).
           tx_bind (history_create
             \<lparr>h_id = newHistoryId g, h_studentId = ed_studentId rq,
              fromBatchId = currentBatchId currentStudent, toBatchId = ed_newToBatchId rq,
              h_changeDate = ed_changeDate rq, h_reason = ed_reason rq,
              h_transferId = transferId g, feeIdFrom = f_id activeFee,
              feeIdTo = f_id newFee, feeManageMode = ''SPLIT'',
              createdAt = now g\<rparr> d7b) (\<lambda>(d7c, _). Inr d7c)))
         else Inr d7) (\<lambda>d8.
      tx_bind (student_update (ed_studentId rq)
        (\<lambda>s. s\<lparr>currentBatchId := ed_newToBatchId rq\<rparr>) d8) (\<lambda>(d9, _).
      tx_bind (batch_update (currentBatchId currentStudent) decrement d9) (\<lambda>(d10, _).
      tx_bind (batch_update (ed_newToBatchId rq) increment d10) (\<lambda>(d11, _).
      Inr d11)))))))"

text \<open>
  Between the steps the student row is read back as \<open>currentStudent\<close> and the open
  fee (status ACTIVE or PENDING) is looked up with its payments; a missing fee throws.
  \<open>currentStudent\<close> is dereferenced only in step 2: were it \<open>null\<close>, that would
  throw there.
\<close>

definition editTx :: "gen \<Rightarrow> edit_req \<Rightarrow> batch_history \<Rightarrow> batch \<Rightarrow> db \<Rightarrow> tx_error + db" where
  "editTx g rq latestHistory toBatch d =
     tx_bind (reversePreviousSwitch rq latestHistory d) (\<lambda>d5.
       case fee_findFirst d5
              (\<lambda>f. f_studentId f = ed_studentId rq \<and> f_status f \<in> set [ACTIVE, PENDING]) of
         None \<Rightarrow> Inl ActiveFeeMissing
       | Some activeFee \<Rightarrow>
         (case student_findUnique d5 (ed_studentId rq) of
            None \<Rightarrow> Inl TypeError
          | Some currentStudent \<Rightarrow> applyNewSwitch g rq toBatch currentStudent activeFee d5))"

text \<open>
  The handler. As in \<open>switchBatch\<close> the cache invalidation and the audit entry
  after the commit are left out; the student row read for the audit text exists
  whenever the transaction committed.
\<close>

definition editBatchSwitch :: "gen \<Rightarrow> edit_req \<Rightarrow> db \<Rightarrow> db \<times> response" where
  "editBatchSwitch g rq d =
     (case history_findLatest d (ed_studentId rq) of
        None \<Rightarrow> (d, sendResponse 400 False ''Only latest switch can be edited'' Null)
      | Some latestHistory \<Rightarrow>
        if h_id latestHistory \<noteq> ed_batchHistoryId rq then
          (d, sendResponse 400 False ''Only latest switch can be edited'' Null)
        else
          (case batch_findUnique d (ed_newToBatchId rq) of
             None \<Rightarrow> (d, sendResponse 404 False ''Target batch not found'' Null)
           | Some toBatch \<Rightarrow>
             if slotLimit toBatch \<le> currentCount toBatch then
               (d, sendResponse 400 False ''Target batch is full'' Null)
             else
               (case editTx g rq latestHistory toBatch d of
                  Inl e \<Rightarrow> (d, uncaught)
                | Inr d' \<Rightarrow>
                    (d', sendResponse 200 True ''Batch switch edited successfully'' Null))))"

section \<open>Notions used to state the properties\<close>

text \<open>The occupancy invariant of a batch: \<open>0 \<le> currentCount \<le> slotLimit\<close>.\<close>

definition withinLimit :: "batch \<Rightarrow> bool" where
  "withinLimit b = (0 \<le> currentCount b \<and> currentCount b \<le> slotLimit b)"

text \<open>
  The amount paid as the specification words it: the sum of the amounts of the open
  fee's payments, leaving out those whose status is CANCELLED or INACTIVE.
\<close>

definition totalPaidSpec :: "db \<Rightarrow> fee \<Rightarrow> int" where
  "totalPaidSpec d f =
     sum_list (map amount (filter notCancelledOrInactive (fee_payments d f)))"

text \<open>
  A history row is a most recent one of a student when it is a row of that student and
  no row of the student has a later \<open>createdAt\<close>.
\<close>

definition mostRecentFor :: "db \<Rightarrow> ident \<Rightarrow> batch_history \<Rightarrow> bool" where
  "mostRecentFor d sid h =
     (h \<in> set (histories d) \<and> h_studentId h = sid \<and>
      (\<forall>h' \<in> set (histories d). h_studentId h' = sid \<longrightarrow> createdAt h' \<le> createdAt h))"

text \<open>The answer of the SPLIT policy to an overpaid student.\<close>

definition overpaidResponse :: response where
  "overpaidResponse = sendResponse 400 False
     ''Student has paid more than the new batch fee. Please create a new admission.'' Null"

text \<open>The answer of a committed edit.\<close>

definition editedResponse :: response where
  "editedResponse = sendResponse 200 True ''Batch switch edited successfully'' Null"

text \<open>
  The fee and payment tables as the reversal of the switch recorded in a history row
  leaves them: when the switch created a fee (\<open>feeIdFrom \<noteq> feeIdTo\<close>), the payments
  on the created fee that are not CANCELLED or INACTIVE go back to the original fee, the
  created fee is deleted and the original fee is PENDING again.
\<close>

definition feesAfterReversal :: "batch_history \<Rightarrow> db \<Rightarrow> fee list" where
  "feesAfterReversal lh d =
     (if feeIdFrom lh \<noteq> feeIdTo lh
      then updateRows (\<lambda>r. f_id r = feeIdFrom lh) (\<lambda>f. f\<lparr>f_status := PENDING\<rparr>)
             (filter (\<lambda>r. f_id r \<noteq> feeIdTo lh) (fees d))
      else fees d)"

definition paymentsAfterReversal :: "batch_history \<Rightarrow> db \<Rightarrow> payment list" where
  "paymentsAfterReversal lh d =
     (if feeIdFrom lh \<noteq> feeIdTo lh
      then updateRows (\<lambda>p. p_feeId p = feeIdTo lh \<and> notCancelledOrInactive p)
             (\<lambda>p. p\<lparr>p_feeId := feeIdFrom lh\<rparr>) (payments d)
      else payments d)"

text \<open>
  The rows that the reversal writes are there: the student, both batches of the recorded
  switch and, when the switch created a fee, both fees, with no CANCELLED or INACTIVE
  payment on the created fee (such a payment stays on it and blocks its deletion).
\<close>

definition reversalRowsPresent :: "edit_req \<Rightarrow> batch_history \<Rightarrow> db \<Rightarrow> bool" where
  "reversalRowsPresent rq lh d =
     (student_findUnique d (ed_studentId rq) \<noteq> None \<and>
      batch_findUnique d (fromBatchId lh) \<noteq> None \<and>
      batch_findUnique d (toBatchId lh) \<noteq> None \<and>
      (feeIdFrom lh = feeIdTo lh \<or>
       fee_findUnique d (feeIdFrom lh) \<noteq> None \<and>
       fee_findUnique d (feeIdTo lh) \<noteq> None \<and>
       (\<forall>p \<in> set (payments d). p_feeId p = feeIdTo lh \<longrightarrow> notCancelledOrInactive p)))"

section \<open>Example states\<close>

text \<open>
  The setup of the scenarios: student S1 enrolled in batch B1, one PENDING fee F1 with
  balance 500 (of a final fee of 1000, the course of B1 costing 1200) and one payment
  of 500, a second batch B2 whose course costs 800.
\<close>

definition ex_db :: db where
  "ex_db = \<lparr>students = [\<lparr>s_id = ''S1'', s_name = ''Asha'', currentBatchId = ''B1''\<rparr>],
     batches =
       [\<lparr>b_id = ''B1'', b_name = ''Morning'', slotLimit = 10, currentCount = 5,
         course = \<lparr>baseFee = 1200\<rparr>\<rparr>,
        \<lparr>b_id = ''B2'', b_name = ''Evening'', slotLimit = 10, currentCount = 3,
         course = \<lparr>baseFee = 800\<rparr>\<rparr>],
     fees =
       [\<lparr>f_id = ''F1'', f_studentId = ''S1'', f_batchId = ''B1'', totalCourseFee = 1200,
         finalFee = 1000, balanceAmount = 500, advanceAmount = Some 100,
         f_status = PENDING, f_transferId = None\<rparr>],
     payments =
       [\<lparr>p_id = ''P1'', p_studentId = ''S1'', p_feeId = ''F1'', amount = 500,
         p_status = ''PAID''\<rparr>],
     histories = []\<rparr>"

definition ex_gen :: gen where
  "ex_gen = \<lparr>newFeeId = ''F2'', newHistoryId = ''H1'', transferId = ''T1'', now = 10\<rparr>"

definition ex_req :: "string \<Rightarrow> switch_req" where
  "ex_req a = \<lparr>sw_studentId = ''S1'', sw_fromBatchId = ''B1'', sw_toBatchId = ''B2'',
     sw_changeDate = ''2025-01-01'', sw_reason = ''timing'', sw_feeAction = a\<rparr>"

text \<open>A switch whose target is the batch the student is already in.\<close>

definition ex_req_same :: switch_req where
  "ex_req_same = (ex_req ''TRANSFER'')\<lparr>sw_toBatchId := ''B1''\<rparr>"

text \<open>The same state with the occupancy counter of B1 at zero.\<close>

definition ex_db_zero :: db where
  "ex_db_zero = ex_db\<lparr>batches :=
       [\<lparr>b_id = ''B1'', b_name = ''Morning'', slotLimit = 10, currentCount = 0,
         course = \<lparr>baseFee = 1200\<rparr>\<rparr>,
        \<lparr>b_id = ''B2'', b_name = ''Evening'', slotLimit = 10, currentCount = 3,
         course = \<lparr>baseFee = 800\<rparr>\<rparr>]\<rparr>"

text \<open>The fee F1 of the example, and the state with a second, cancelled payment on it.\<close>

definition ex_F1 :: fee where
  "ex_F1 = \<lparr>f_id = ''F1'', f_studentId = ''S1'', f_batchId = ''B1'', totalCourseFee = 1200,
         finalFee = 1000, balanceAmount = 500, advanceAmount = Some 100,
         f_status = PENDING, f_transferId = None\<rparr>"

definition ex_db_cancelled :: db where
  "ex_db_cancelled = ex_db\<lparr>payments :=
       [\<lparr>p_id = ''P1'', p_studentId = ''S1'', p_feeId = ''F1'', amount = 500,
         p_status = ''PAID''\<rparr>,
        \<lparr>p_id = ''P2'', p_studentId = ''S1'', p_feeId = ''F1'', amount = 200,
         p_status = ''CANCELLED''\<rparr>]\<rparr>"

text \<open>
  The state with a second payment on F1 that is recorded for another student, and the
  state in which S1 has paid 900 on F1.
\<close>

definition ex_db_foreign :: db where
  "ex_db_foreign = ex_db\<lparr>payments :=
       [\<lparr>p_id = ''P1'', p_studentId = ''S1'', p_feeId = ''F1'', amount = 500,
         p_status = ''PAID''\<rparr>,
        \<lparr>p_id = ''P3'', p_studentId = ''S2'', p_feeId = ''F1'', amount = 50,
         p_status = ''PAID''\<rparr>]\<rparr>"

definition ex_db_overpaid :: db where
  "ex_db_overpaid = ex_db\<lparr>payments :=
       [\<lparr>p_id = ''P1'', p_studentId = ''S1'', p_feeId = ''F1'', amount = 900,
         p_status = ''PAID''\<rparr>]\<rparr>"

text \<open>The batch B2 of the example.\<close>

definition ex_B2 :: batch where
  "ex_B2 = \<lparr>b_id = ''B2'', b_name = ''Evening'', slotLimit = 10, currentCount = 3,
         course = \<lparr>baseFee = 800\<rparr>\<rparr>"

text \<open>The edits of the examples: a second set of fresh values and the edit request.\<close>

definition ex_gen2 :: gen where
  "ex_gen2 = \<lparr>newFeeId = ''F3'', newHistoryId = ''H2'', transferId = ''T2'', now = 20\<rparr>"

definition ex_edit :: "ident \<Rightarrow> string \<Rightarrow> edit_req" where
  "ex_edit b a = \<lparr>ed_studentId = ''S1'', ed_batchHistoryId = ''H1'', ed_newToBatchId = b,
     ed_newFeeAction = a, ed_changeDate = ''2025-01-02'', ed_reason = ''back''\<rparr>"

text \<open>The example state after the switch of S1 from B1 to B2 with a given fee action.\<close>

definition ex_switched :: "string \<Rightarrow> db" where
  "ex_switched a = fst (switchBatch ex_gen (ex_req a) ex_db)"

text \<open>The state after the TRANSFER switch with a later history row of S1 added.\<close>

definition ex_db_later :: db where
  "ex_db_later = (ex_switched ''TRANSFER'')\<lparr>histories :=
     histories (ex_switched ''TRANSFER'') @
       [\<lparr>h_id = ''H9'', h_studentId = ''S1'', fromBatchId = ''B2'', toBatchId = ''B1'',
         h_changeDate = ''2025-02-01'', h_reason = ''later'', h_transferId = ''T9'',
         feeIdFrom = ''F1'', feeIdTo = ''F1'', feeManageMode = ''TRANSFER'',
         createdAt = 30\<rparr>]\<rparr>"

text \<open>The history row that the SPLIT switch of the example appends.\<close>

definition ex_H1 :: batch_history where
  "ex_H1 = \<lparr>h_id = ''H1'', h_studentId = ''S1'', fromBatchId = ''B1'', toBatchId = ''B2'',
     h_changeDate = ''2025-01-01'', h_reason = ''timing'', h_transferId = ''T1'',
     feeIdFrom = ''F1'', feeIdTo = ''F2'', feeManageMode = ''SPLIT'', createdAt = 10\<rparr>"

text \<open>
  The state with the cancelled payment after the TRANSFER switch of S1 to B2, and the
  history row that switch appends.
\<close>

definition ex_switched_cancelled :: db where
  "ex_switched_cancelled = fst (switchBatch ex_gen (ex_req ''TRANSFER'') ex_db_cancelled)"

definition ex_H1_transfer :: batch_history where
  "ex_H1_transfer = \<lparr>h_id = ''H1'', h_studentId = ''S1'', fromBatchId = ''B1'',
     toBatchId = ''B2'', h_changeDate = ''2025-01-01'', h_reason = ''timing'',
     h_transferId = ''T1'', feeIdFrom = ''F1'', feeIdTo = ''F1'', feeManageMode = ''TRANSFER'',
     createdAt = 10\<rparr>"

text \<open>The state after the TRANSFER switch of the example with the fee F1 paid up.\<close>

definition ex_switched_paid :: db where
  "ex_switched_paid = (ex_switched ''TRANSFER'')\<lparr>fees := [ex_F1\<lparr>f_status := PAID\<rparr>]\<rparr>"

section \<open>Facts about the storage operations and the transactions\<close>

lemmas model_defs = switchBatch_def switchTransfer_def transferTx_def switchNewFee_def
  newFeeTx_def switchSplit_def splitTx_def editBatchSwitch_def editTx_def
  reversePreviousSwitch_def applyNewSwitch_def
  tx_bind_def updateRows_def student_findUnique_def student_update_def batch_findUnique_def
  batch_update_def increment_def decrement_def fee_findUnique_def fee_findFirst_def
  fee_create_def fee_update_def fee_delete_def fee_payments_def payment_updateMany_def
  notCancelledOrInactive_def history_findUnique_def history_create_def history_delete_def
  history_findLatest_def reduceAmounts_def sendResponse_def uncaught_def

lemmas ex_defs = ex_db_def ex_gen_def ex_req_def ex_req_same_def ex_db_zero_def ex_F1_def
  ex_db_cancelled_def ex_B2_def ex_db_foreign_def ex_db_overpaid_def ex_gen2_def
  ex_edit_def ex_switched_def ex_db_later_def ex_H1_def
  ex_switched_cancelled_def ex_H1_transfer_def ex_switched_paid_def

lemma find_updateRows_batch:
  "(\<And>b. b_id (f b) = b_id b) \<Longrightarrow>
   find (\<lambda>b. b_id b = k') (updateRows (\<lambda>b. b_id b = k) f bs) =
   map_option (\<lambda>b. if b_id b = k then f b else b) (find (\<lambda>b. b_id b = k') bs)"
  by (induction bs) (auto simp: updateRows_def)

lemma find_updateRows_student:
  "(\<And>s. s_id (f s) = s_id s) \<Longrightarrow>
   find (\<lambda>s. s_id s = k') (updateRows (\<lambda>s. s_id s = k) f ss) =
   map_option (\<lambda>s. if s_id s = k then f s else s) (find (\<lambda>s. s_id s = k') ss)"
  by (induction ss) (auto simp: updateRows_def)

lemma find_updateRows_fee:
  "(\<And>r. f_id (f r) = f_id r) \<Longrightarrow>
   find (\<lambda>r. f_id r = k') (updateRows (\<lambda>r. f_id r = k) f fs) =
   map_option (\<lambda>r. if f_id r = k then f r else r) (find (\<lambda>r. f_id r = k') fs)"
  by (induction fs) (auto simp: updateRows_def)

lemma find_SomeD: "find P xs = Some x \<Longrightarrow> P x"
  by (induction xs) (auto split: if_splits)

lemma b_id_increment [simp]: "b_id (increment b) = b_id b"
  by (simp add: increment_def)

lemma b_id_decrement [simp]: "b_id (decrement b) = b_id b"
  by (simp add: decrement_def)

lemma tx_bind_Inr:
  "tx_bind m f = Inr y \<longleftrightarrow> (\<exists>x. m = Inr x \<and> f x = Inr y)"
  by (cases m) (auto simp: tx_bind_def)

lemma student_update_Inr:
  "student_update k f d = Inr (d', r) \<longleftrightarrow>
     (\<exists>r0. student_findUnique d k = Some r0 \<and> r = f r0 \<and>
       d' = d\<lparr>students := updateRows (\<lambda>s. s_id s = k) f (students d)\<rparr>)"
  by (auto simp: student_update_def split: option.splits)

lemma batch_update_Inr:
  "batch_update k f d = Inr (d', r) \<longleftrightarrow>
     (\<exists>r0. batch_findUnique d k = Some r0 \<and> r = f r0 \<and>
       d' = d\<lparr>batches := updateRows (\<lambda>b. b_id b = k) f (batches d)\<rparr>)"
  by (auto simp: batch_update_def split: option.splits)

lemma fee_update_Inr:
  "fee_update k f d = Inr (d', r) \<longleftrightarrow>
     (\<exists>r0. fee_findUnique d k = Some r0 \<and> r = f r0 \<and>
       d' = d\<lparr>fees := updateRows (\<lambda>r. f_id r = k) f (fees d)\<rparr>)"
  by (auto simp: fee_update_def split: option.splits)

lemma fee_create_Inr:
  "fee_create r d = Inr (d', r') \<longleftrightarrow>
     (fee_findUnique d (f_id r) = None \<and> r' = r \<and> d' = d\<lparr>fees := fees d @ [r]\<rparr>)"
  by (auto simp: fee_create_def split: option.splits)

lemma fee_delete_Inr:
  "fee_delete k d = Inr d' \<longleftrightarrow>
     (\<exists>r0. fee_findUnique d k = Some r0 \<and>
       find (\<lambda>p. p_feeId p = k) (payments d) = None \<and>
       d' = d\<lparr>fees := filter (\<lambda>r. f_id r \<noteq> k) (fees d)\<rparr>)"
  by (auto simp: fee_delete_def split: option.splits)

lemma history_create_Inr:
  "history_create r d = Inr (d', r') \<longleftrightarrow>
     (history_findUnique d (h_id r) = None \<and> r' = r \<and> d' = d\<lparr>histories := histories d @ [r]\<rparr>)"
  by (auto simp: history_create_def split: option.splits)

lemma history_delete_Inr:
  "history_delete k d = Inr d' \<longleftrightarrow>
     (\<exists>r0. history_findUnique d k = Some r0 \<and>
       d' = d\<lparr>histories := filter (\<lambda>r. h_id r \<noteq> k) (histories d)\<rparr>)"
  by (auto simp: history_delete_def split: option.splits)

lemmas tx_Inr = tx_bind_Inr student_update_Inr batch_update_Inr fee_update_Inr fee_create_Inr
  fee_delete_Inr history_create_Inr history_delete_Inr

lemma transferTx_Inr:
  assumes "transferTx g rq oldFee d = Inr (d', h, s, bf, bt)"
  shows "batches d' = updateRows (\<lambda>b. b_id b = sw_toBatchId rq) increment
            (updateRows (\<lambda>b. b_id b = sw_fromBatchId rq) decrement (batches d))"
    and "students d' = updateRows (\<lambda>s. s_id s = sw_studentId rq)
            (\<lambda>s. s\<lparr>currentBatchId := sw_toBatchId rq\<rparr>) (students d)"
    and "fees d' = fees d" and "payments d' = payments d"
    and "histories d' = histories d @ [h]"
    and "history_findUnique d (newHistoryId g) = None"
    and "batch_findUnique d (sw_fromBatchId rq) \<noteq> None"
  using assms
  by (auto simp: transferTx_def tx_Inr batch_findUnique_def find_updateRows_batch)

lemma newFeeTx_Inr:
  assumes "newFeeTx g rq toBatch oldFee newFeeAmount d = Inr (d', nf, uof, h)"
  shows "batches d' = updateRows (\<lambda>b. b_id b = sw_toBatchId rq) increment
            (updateRows (\<lambda>b. b_id b = sw_fromBatchId rq) decrement (batches d))"
    and "students d' = updateRows (\<lambda>s. s_id s = sw_studentId rq)
            (\<lambda>s. s\<lparr>currentBatchId := sw_toBatchId rq\<rparr>) (students d)"
    and "fees d' = updateRows (\<lambda>r. f_id r = f_id oldFee) (\<lambda>f. f\<lparr>f_status := CANCELLED\<rparr>)
            (fees d @ [nf])"
    and "payments d' = updateRows
            (\<lambda>p. p_studentId p = sw_studentId rq \<and> p_feeId p = f_id oldFee
                 \<and> notCancelledOrInactive p)
            (\<lambda>p. p\<lparr>p_feeId := newFeeId g\<rparr>) (payments d)"
    and "histories d' = histories d @ [h]"
    and "nf = \<lparr>f_id = newFeeId g, f_studentId = sw_studentId rq, f_batchId = sw_toBatchId rq,
        totalCourseFee = baseFee (course toBatch), finalFee = baseFee (course toBatch),
        balanceAmount = newFeeAmount, advanceAmount = advanceAmount oldFee,
        f_status = PENDING, f_transferId = None\<rparr>"
    and "h = \<lparr>h_id = newHistoryId g, h_studentId = sw_studentId rq,
        fromBatchId = sw_fromBatchId rq, toBatchId = sw_toBatchId rq,
        h_changeDate = sw_changeDate rq, h_reason = sw_reason rq,
        h_transferId = transferId g, feeIdFrom = f_id oldFee, feeIdTo = newFeeId g,
        feeManageMode = ''NEW_FEE'', createdAt = now g\<rparr>"
    and "fee_findUnique d (newFeeId g) = None"
    and "history_findUnique d (newHistoryId g) = None"
    and "batch_findUnique d (sw_fromBatchId rq) \<noteq> None"
  using assms
  by (auto simp: newFeeTx_def tx_Inr batch_findUnique_def find_updateRows_batch
      payment_updateMany_def history_findUnique_def)

lemma splitTx_Inr:
  assumes "splitTx g rq toBatch oldFee totalPaidOld adjustedFee d = Inr (d', nf, uof, h)"
  shows "batches d' = updateRows (\<lambda>b. b_id b = sw_toBatchId rq) increment
            (updateRows (\<lambda>b. b_id b = sw_fromBatchId rq) decrement (batches d))"
    and "students d' = updateRows (\<lambda>s. s_id s = sw_studentId rq)
            (\<lambda>s. s\<lparr>currentBatchId := sw_toBatchId rq\<rparr>) (students d)"
    and "fees d' = updateRows (\<lambda>r. f_id r = f_id oldFee)
            (\<lambda>f. f\<lparr>f_status :=
                 (if balanceAmount oldFee = 0 \<or> finalFee oldFee \<le> totalPaidOld
                  then PAID else INACTIVE),
               f_transferId := Some (transferId g)\<rparr>)
            (fees d @ [nf])"
    and "payments d' = payments d"
    and "histories d' = histories d @ [h]"
    and "nf = \<lparr>f_id = newFeeId g, f_studentId = sw_studentId rq, f_batchId = sw_toBatchId rq,
        totalCourseFee = baseFee (course toBatch), finalFee = adjustedFee,
        balanceAmount = adjustedFee, advanceAmount = None,
        f_status = PENDING, f_transferId = Some (transferId g)\<rparr>"
    and "h = \<lparr>h_id = newHistoryId g, h_studentId = sw_studentId rq,
        fromBatchId = sw_fromBatchId rq, toBatchId = sw_toBatchId rq,
        h_changeDate = sw_changeDate rq, h_reason = sw_reason rq,
        h_transferId = transferId g, feeIdFrom = f_id oldFee, feeIdTo = newFeeId g,
        feeManageMode = ''SPLIT'', createdAt = now g\<rparr>"
    and "fee_findUnique d (newFeeId g) = None"
    and "history_findUnique d (newHistoryId g) = None"
    and "batch_findUnique d (sw_fromBatchId rq) \<noteq> None"
  using assms
  by (auto simp: splitTx_def tx_Inr batch_findUnique_def find_updateRows_batch
      history_findUnique_def Let_def)

text \<open>What a successful switch went through.\<close>

lemma switchBatch_success:
  assumes "switchBatch g rq d = (d', r)" and "success r"
  obtains student toBatch oldFee where
    "student_findUnique d (sw_studentId rq) = Some student"
    "currentBatchId student = sw_fromBatchId rq"
    "batch_findUnique d (sw_toBatchId rq) = Some toBatch"
    "currentCount toBatch < slotLimit toBatch"
    "fee_findFirst d (\<lambda>f. f_studentId f = sw_studentId rq \<and> f_status f = PENDING) = Some oldFee"
    "(sw_feeAction rq = ''TRANSFER'' \<and> switchTransfer g rq oldFee d = (d', r)) \<or>
     (sw_feeAction rq = ''NEW_FEE'' \<and>
        switchNewFee g rq toBatch oldFee (reduceAmounts (fee_payments d oldFee)) d = (d', r)) \<or>
     (sw_feeAction rq = ''SPLIT'' \<and>
        switchSplit g rq toBatch oldFee (reduceAmounts (fee_payments d oldFee)) d = (d', r))"
  using assms
  by (auto simp: switchBatch_def sendResponse_def Let_def
      split: option.splits if_splits)

lemma switchTransfer_success:
  assumes "switchTransfer g rq oldFee d = (d', r)" and "success r"
  obtains h s bf bt where "transferTx g rq oldFee d = Inr (d', h, s, bf, bt)"
    "r = sendResponse 200 True ''Batch switched successfully''
             (Payload \<lparr>pl_batchHistory = StudentRow s, pl_oldFee = None, pl_newFee = None,
                       pl_transferId = transferId g\<rparr>)"
  using assms
  by (auto simp: switchTransfer_def sendResponse_def uncaught_def split: sum.splits)

lemma switchNewFee_success:
  assumes "switchNewFee g rq toBatch oldFee totalPaidOld d = (d', r)" and "success r"
  obtains nf uof h where
    "newFeeTx g rq toBatch oldFee (max (baseFee (course toBatch) - totalPaidOld) 0) d
       = Inr (d', nf, uof, h)"
    "r = sendResponse 200 True ''Batch switched successfully''
             (Payload \<lparr>pl_batchHistory = HistoryRow h, pl_oldFee = Some uof,
                       pl_newFee = Some nf, pl_transferId = transferId g\<rparr>)"
  using assms
  by (auto simp: switchNewFee_def sendResponse_def Let_def split: sum.splits)

lemma switchSplit_success:
  assumes "switchSplit g rq toBatch oldFee totalPaidOld d = (d', r)" and "success r"
  obtains nf uof h where
    "splitTx g rq toBatch oldFee totalPaidOld (max (baseFee (course toBatch) - totalPaidOld) 0) d
       = Inr (d', nf, uof, h)"
    "totalPaidOld \<le> baseFee (course toBatch)"
    "r = sendResponse 200 True ''Batch switched (SPLIT mode)''
             (Payload \<lparr>pl_batchHistory = HistoryRow h, pl_oldFee = Some uof,
                       pl_newFee = Some nf, pl_transferId = transferId g\<rparr>)"
  using assms
  by (auto simp: switchSplit_def sendResponse_def Let_def split: sum.splits if_splits)

text \<open>The transaction that a successful switch committed, by fee action.\<close>

lemma switchBatch_success_tx:
  assumes "switchBatch g rq d = (d', r)" and "success r"
  obtains
    (Transfer) oldFee h s bf bt where
      "sw_feeAction rq = ''TRANSFER''"
      "transferTx g rq oldFee d = Inr (d', h, s, bf, bt)"
      "r = sendResponse 200 True ''Batch switched successfully''
             (Payload \<lparr>pl_batchHistory = StudentRow s, pl_oldFee = None, pl_newFee = None,
                       pl_transferId = transferId g\<rparr>)"
  | (NewFee) toBatch oldFee newFeeAmount nf uof h where
      "sw_feeAction rq = ''NEW_FEE''"
      "newFeeTx g rq toBatch oldFee newFeeAmount d = Inr (d', nf, uof, h)"
      "r = sendResponse 200 True ''Batch switched successfully''
             (Payload \<lparr>pl_batchHistory = HistoryRow h, pl_oldFee = Some uof,
                       pl_newFee = Some nf, pl_transferId = transferId g\<rparr>)"
  | (Split) toBatch oldFee totalPaidOld adjustedFee nf uof h where
      "sw_feeAction rq = ''SPLIT''"
      "splitTx g rq toBatch oldFee totalPaidOld adjustedFee d = Inr (d', nf, uof, h)"
      "r = sendResponse 200 True ''Batch switched (SPLIT mode)''
             (Payload \<lparr>pl_batchHistory = HistoryRow h, pl_oldFee = Some uof,
                       pl_newFee = Some nf, pl_transferId = transferId g\<rparr>)"
proof -
  from assms obtain student toBatch oldFee where
    "(sw_feeAction rq = ''TRANSFER'' \<and> switchTransfer g rq oldFee d = (d', r)) \<or>
     (sw_feeAction rq = ''NEW_FEE'' \<and>
        switchNewFee g rq toBatch oldFee (reduceAmounts (fee_payments d oldFee)) d = (d', r)) \<or>
     (sw_feeAction rq = ''SPLIT'' \<and>
        switchSplit g rq toBatch oldFee (reduceAmounts (fee_payments d oldFee)) d = (d', r))"
    by (rule switchBatch_success)
  then consider
      (T) "sw_feeAction rq = ''TRANSFER''" "switchTransfer g rq oldFee d = (d', r)"
    | (N) "sw_feeAction rq = ''NEW_FEE''"
        "switchNewFee g rq toBatch oldFee (reduceAmounts (fee_payments d oldFee)) d = (d', r)"
    | (S) "sw_feeAction rq = ''SPLIT''"
        "switchSplit g rq toBatch oldFee (reduceAmounts (fee_payments d oldFee)) d = (d', r)"
    by blast
  then show thesis
  proof cases
    case T
    from T(2) assms(2) show thesis
      by (rule switchTransfer_success) (rule Transfer [OF T(1)])
  next
    case N
    from N(2) assms(2) show thesis
      by (rule switchNewFee_success) (rule NewFee [OF N(1)])
  next
    case S
    from S(2) assms(2) show thesis
      by (rule switchSplit_success) (rule Split [OF S(1)])
  qed
qed

lemma switchBatch_success_batches:
  assumes "switchBatch g rq d = (d', r)" and "success r"
  shows "batches d' = updateRows (\<lambda>b. b_id b = sw_toBatchId rq) increment
            (updateRows (\<lambda>b. b_id b = sw_fromBatchId rq) decrement (batches d))"
    and "students d' = updateRows (\<lambda>s. s_id s = sw_studentId rq)
            (\<lambda>s. s\<lparr>currentBatchId := sw_toBatchId rq\<rparr>) (students d)"
  using assms
  by (cases rule: switchBatch_success_tx;
      simp add: transferTx_Inr(1,2) newFeeTx_Inr(1,2) splitTx_Inr(1,2))+

lemma foldl_amount: "foldl (\<lambda>sum p. sum + amount p) a ps = a + sum_list (map amount ps)"
  by (induction ps arbitrary: a) simp_all

lemma sum_list_split:
  "sum_list (map amount ps) =
     sum_list (map amount (filter P ps)) + sum_list (map amount (filter (\<lambda>p. \<not> P p) ps))"
  by (induction ps) simp_all

lemma find_snoc:
  "find P (xs @ [r]) = (case find P xs of None \<Rightarrow> (if P r then Some r else None) | Some x \<Rightarrow> Some x)"
  by (induction xs) simp_all

lemma find_in_set: "find P xs = Some x \<Longrightarrow> x \<in> set xs"
  by (induction xs) (auto split: if_splits)

lemma findFirst_fee_has_id:
  assumes "fee_findFirst d P = Some oldFee"
  shows "\<exists>r. fee_findUnique d (f_id oldFee) = Some r"
proof -
  from assms have "oldFee \<in> set (fees d)"
    by (auto simp: fee_findFirst_def dest: find_in_set)
  then have "find (\<lambda>r. f_id r = f_id oldFee) (fees d) \<noteq> None"
    by (auto simp: find_None_iff)
  then show ?thesis by (auto simp: fee_findUnique_def)
qed


lemma applyNewSwitch_Inr:
  assumes "applyNewSwitch g rq tb cs af d5 = Inr d'"
  shows "students d' = updateRows (\<lambda>s. s_id s = ed_studentId rq)
            (\<lambda>s. s\<lparr>currentBatchId := ed_newToBatchId rq\<rparr>) (students d5)"
    and "batches d' = updateRows (\<lambda>b. b_id b = ed_newToBatchId rq) increment
            (updateRows (\<lambda>b. b_id b = currentBatchId cs) decrement (batches d5))"
    and "ed_newFeeAction rq = ''TRANSFER'' \<Longrightarrow>
           fees d' = fees d5 \<and> payments d' = payments d5"
    and "ed_newFeeAction rq \<notin> set [''TRANSFER'', ''NEW_FEE'', ''SPLIT''] \<Longrightarrow>
           fees d' = fees d5 \<and> payments d' = payments d5 \<and> histories d' = histories d5"
  using assms
  by (auto simp: applyNewSwitch_def Let_def tx_Inr payment_updateMany_def
      split: if_splits)

lemma editBatchSwitch_success:
  assumes "editBatchSwitch g rq d = (d', r)" and "success r"
  obtains lh tb d5 af cs where
    "history_findLatest d (ed_studentId rq) = Some lh"
    "h_id lh = ed_batchHistoryId rq"
    "batch_findUnique d (ed_newToBatchId rq) = Some tb"
    "currentCount tb < slotLimit tb"
    "reversePreviousSwitch rq lh d = Inr d5"
    "fee_findFirst d5
       (\<lambda>f. f_studentId f = ed_studentId rq \<and> f_status f \<in> set [ACTIVE, PENDING]) = Some af"
    "student_findUnique d5 (ed_studentId rq) = Some cs"
    "applyNewSwitch g rq tb cs af d5 = Inr d'"
    "r = editedResponse"
  using assms
  by (auto simp: editBatchSwitch_def editTx_def sendResponse_def uncaught_def tx_Inr
      editedResponse_def
      split: option.splits if_splits sum.splits)

lemma latestOf_Some:
  "latestOf hs = Some h \<Longrightarrow> h \<in> set hs \<and> (\<forall>h' \<in> set hs. createdAt h' \<le> createdAt h)"
proof (induction hs arbitrary: h)
  case Nil
  then show ?case by simp
next
  case (Cons x xs)
  show ?case
  proof (cases "latestOf xs")
    case None
    then have "xs = []" by (cases xs) (auto split: option.splits if_splits)
    with Cons.prems show ?thesis by simp
  next
    case (Some y)
    with Cons.IH have y: "y \<in> set xs" "\<forall>h' \<in> set xs. createdAt h' \<le> createdAt y"
      by auto
    from Cons.prems Some y show ?thesis
      by (auto split: if_splits)
  qed
qed

lemma history_findLatest_mostRecent:
  assumes "history_findLatest d sid = Some h"
  shows "mostRecentFor d sid h"
  using latestOf_Some [OF assms [unfolded history_findLatest_def]]
  by (auto simp: mostRecentFor_def)

lemma switchBatch_success_payload:
  assumes "switchBatch g rq d = (d', r)" and "success r"
  shows "\<exists>p. data r = Payload p \<and> pl_transferId p = transferId g \<and>
     (sw_feeAction rq \<noteq> ''TRANSFER'' \<longrightarrow>
        (\<exists>h. pl_batchHistory p = HistoryRow h \<and> histories d' = histories d @ [h] \<and>
             h_id h = newHistoryId g \<and> h_transferId h = transferId g))"
  using assms
proof (cases rule: switchBatch_success_tx)
  case (Transfer oldFee h s bf bt)
  then show ?thesis by (simp add: sendResponse_def)
next
  case (NewFee toBatch oldFee newFeeAmount nf uof h)
  from newFeeTx_Inr(5,7) [OF NewFee(2)] NewFee(3) show ?thesis
    by (simp add: sendResponse_def)
next
  case (Split toBatch oldFee totalPaidOld adjustedFee nf uof h)
  from splitTx_Inr(5,7) [OF Split(2)] Split(3) show ?thesis
    by (simp add: sendResponse_def)
qed

lemma find_filter_neq_None: "find (\<lambda>r. key r = k) (filter (\<lambda>r. key r \<noteq> k) xs) = None"
  by (induction xs) simp_all


lemma student_after_apply:
  assumes "applyNewSwitch g rq tb cs af d5 = Inr d'"
    and "student_findUnique d5 (ed_studentId rq) = Some cs"
  shows "student_findUnique d' (ed_studentId rq)
           = Some (cs\<lparr>currentBatchId := ed_newToBatchId rq\<rparr>)"
  using assms(2) find_SomeD [of "\<lambda>s. s_id s = ed_studentId rq" "students d5"]
  by (auto simp: student_findUnique_def applyNewSwitch_Inr(1) [OF assms(1)]
      find_updateRows_student)





lemma reduceAmounts_all:
  "reduceAmounts (fee_payments d f)
     = sum_list (map amount (filter (\<lambda>p. p_feeId p = f_id f) (payments d)))"
  by (simp add: reduceAmounts_def foldl_amount fee_payments_def)

text \<open>The fee rows after a successful SPLIT switch and after a successful NEW_FEE switch.\<close>

lemma switchBatch_SPLIT_rows:
  assumes "switchBatch g rq d = (d', r)" and "success r"
    and "sw_feeAction rq = ''SPLIT''"
    and "batch_findUnique d (sw_toBatchId rq) = Some toBatch"
    and "fee_findFirst d (\<lambda>f. f_studentId f = sw_studentId rq \<and> f_status f = PENDING)
           = Some oldFee"
  shows "fee_findUnique d (newFeeId g) = None"
    and "fee_findUnique d' (newFeeId g) =
      Some \<lparr>f_id = newFeeId g, f_studentId = sw_studentId rq, f_batchId = sw_toBatchId rq,
        totalCourseFee = baseFee (course toBatch),
        finalFee = max (baseFee (course toBatch) - reduceAmounts (fee_payments d oldFee)) 0,
        balanceAmount = max (baseFee (course toBatch) - reduceAmounts (fee_payments d oldFee)) 0,
        advanceAmount = None, f_status = PENDING, f_transferId = Some (transferId g)\<rparr>"
    and "payments d' = payments d"
    and "\<exists>r0. fee_findUnique d (f_id oldFee) = Some r0 \<and>
      fee_findUnique d' (f_id oldFee) =
        Some (r0\<lparr>f_status :=
                  (if balanceAmount oldFee = 0
                      \<or> finalFee oldFee \<le> reduceAmounts (fee_payments d oldFee)
                   then PAID else INACTIVE),
                f_transferId := Some (transferId g)\<rparr>)"
    and "reduceAmounts (fee_payments d oldFee) \<le> baseFee (course toBatch)"
proof -
  let ?paid = "reduceAmounts (fee_payments d oldFee)"
  from assms(1,2) obtain student tb fe where
    pre: "batch_findUnique d (sw_toBatchId rq) = Some tb"
      "fee_findFirst d (\<lambda>f. f_studentId f = sw_studentId rq \<and> f_status f = PENDING) = Some fe"
      "(sw_feeAction rq = ''TRANSFER'' \<and> switchTransfer g rq fe d = (d', r)) \<or>
       (sw_feeAction rq = ''NEW_FEE'' \<and>
          switchNewFee g rq tb fe (reduceAmounts (fee_payments d fe)) d = (d', r)) \<or>
       (sw_feeAction rq = ''SPLIT'' \<and>
          switchSplit g rq tb fe (reduceAmounts (fee_payments d fe)) d = (d', r))"
    by (rule switchBatch_success)
  with assms(3,4,5) have "switchSplit g rq toBatch oldFee ?paid d = (d', r)"
    by simp
  then obtain nf uof h where
    tx: "splitTx g rq toBatch oldFee ?paid (max (baseFee (course toBatch) - ?paid) 0) d
           = Inr (d', nf, uof, h)"
    and le: "?paid \<le> baseFee (course toBatch)"
    using assms(2) by (rule switchSplit_success)
  note fx = splitTx_Inr [OF tx]
  from assms(5) obtain r0 where r0: "fee_findUnique d (f_id oldFee) = Some r0"
    using findFirst_fee_has_id by blast
  with fx(8) have ne: "f_id oldFee \<noteq> newFeeId g" by auto
  have "fee_findUnique d' (newFeeId g) = Some nf"
    using fx(8) ne
    by (simp add: fee_findUnique_def fx(3) find_updateRows_fee find_snoc)
       (simp add: fx(6))
  then show "fee_findUnique d' (newFeeId g) =
      Some \<lparr>f_id = newFeeId g, f_studentId = sw_studentId rq, f_batchId = sw_toBatchId rq,
        totalCourseFee = baseFee (course toBatch),
        finalFee = max (baseFee (course toBatch) - ?paid) 0,
        balanceAmount = max (baseFee (course toBatch) - ?paid) 0,
        advanceAmount = None, f_status = PENDING, f_transferId = Some (transferId g)\<rparr>"
    by (simp add: fx(6))
  have "f_id r0 = f_id oldFee"
    using r0 by (auto simp: fee_findUnique_def dest: find_SomeD)
  then have "fee_findUnique d' (f_id oldFee) =
      Some (r0\<lparr>f_status := (if balanceAmount oldFee = 0 \<or> finalFee oldFee \<le> ?paid
                              then PAID else INACTIVE),
               f_transferId := Some (transferId g)\<rparr>)"
    using r0 by (simp add: fee_findUnique_def fx(3) find_updateRows_fee find_snoc)
  with r0 show "\<exists>r0. fee_findUnique d (f_id oldFee) = Some r0 \<and>
      fee_findUnique d' (f_id oldFee) =
        Some (r0\<lparr>f_status :=
                  (if balanceAmount oldFee = 0 \<or> finalFee oldFee \<le> ?paid
                   then PAID else INACTIVE),
                f_transferId := Some (transferId g)\<rparr>)"
    by simp
  show "fee_findUnique d (newFeeId g) = None" by (rule fx(8))
  show "payments d' = payments d" by (rule fx(4))
  show "?paid \<le> baseFee (course toBatch)" by (rule le)
qed

lemma switchBatch_NEW_FEE_row:
  assumes "switchBatch g rq d = (d', r)" and "success r"
    and "sw_feeAction rq = ''NEW_FEE''"
    and "batch_findUnique d (sw_toBatchId rq) = Some toBatch"
    and "fee_findFirst d (\<lambda>f. f_studentId f = sw_studentId rq \<and> f_status f = PENDING)
           = Some oldFee"
  shows "fee_findUnique d' (newFeeId g) =
      Some \<lparr>f_id = newFeeId g, f_studentId = sw_studentId rq, f_batchId = sw_toBatchId rq,
        totalCourseFee = baseFee (course toBatch), finalFee = baseFee (course toBatch),
        balanceAmount = max (baseFee (course toBatch) - reduceAmounts (fee_payments d oldFee)) 0,
        advanceAmount = advanceAmount oldFee, f_status = PENDING, f_transferId = None\<rparr>"
proof -
  let ?paid = "reduceAmounts (fee_payments d oldFee)"
  from assms(1,2) obtain student tb fe where
    pre: "batch_findUnique d (sw_toBatchId rq) = Some tb"
      "fee_findFirst d (\<lambda>f. f_studentId f = sw_studentId rq \<and> f_status f = PENDING) = Some fe"
      "(sw_feeAction rq = ''TRANSFER'' \<and> switchTransfer g rq fe d = (d', r)) \<or>
       (sw_feeAction rq = ''NEW_FEE'' \<and>
          switchNewFee g rq tb fe (reduceAmounts (fee_payments d fe)) d = (d', r)) \<or>
       (sw_feeAction rq = ''SPLIT'' \<and>
          switchSplit g rq tb fe (reduceAmounts (fee_payments d fe)) d = (d', r))"
    by (rule switchBatch_success)
  with assms(3,4,5) have "switchNewFee g rq toBatch oldFee ?paid d = (d', r)"
    by simp
  then obtain nf uof h where
    tx: "newFeeTx g rq toBatch oldFee (max (baseFee (course toBatch) - ?paid) 0) d
           = Inr (d', nf, uof, h)"
    using assms(2) by (rule switchNewFee_success)
  note fx = newFeeTx_Inr [OF tx]
  from assms(5) obtain r0 where r0: "fee_findUnique d (f_id oldFee) = Some r0"
    using findFirst_fee_has_id by blast
  with fx(8) have ne: "f_id oldFee \<noteq> newFeeId g" by auto
  have "fee_findUnique d' (newFeeId g) = Some nf"
    using fx(8) ne
    by (simp add: fee_findUnique_def fx(3) find_updateRows_fee find_snoc)
       (simp add: fx(6))
  then show ?thesis by (simp add: fx(6))
qed

text \<open>The fee rows after the re-application of the edit as NEW_FEE and as SPLIT.\<close>

lemma applyNewSwitch_NEW_FEE_row:
  assumes "applyNewSwitch g rq tb cs af d5 = Inr d'"
    and "ed_newFeeAction rq = ''NEW_FEE''"
  shows "map_option balanceAmount (fee_findUnique d' (newFeeId g))
      = Some (max (baseFee (course tb) - reduceAmounts (fee_payments d5 af)) 0)"
  using assms
  by (auto simp: applyNewSwitch_def Let_def tx_Inr payment_updateMany_def fee_findUnique_def
      find_updateRows_fee find_snoc fee_payments_def
      split: if_splits)

lemma applyNewSwitch_SPLIT_rows:
  assumes "applyNewSwitch g rq tb cs af d5 = Inr d'"
    and "ed_newFeeAction rq = ''SPLIT''"
    and "fee_findFirst d5 P = Some af"
  shows "map_option balanceAmount (fee_findUnique d' (newFeeId g))
      = Some (max (baseFee (course tb) - reduceAmounts (fee_payments d5 af)) 0)"
    and "map_option f_status (fee_findUnique d' (f_id af))
      = Some (if balanceAmount af = 0 \<or> finalFee af \<le> reduceAmounts (fee_payments d5 af)
              then PAID else INACTIVE)"
proof -
  from assms(3) obtain r0 where r0: "fee_findUnique d5 (f_id af) = Some r0"
    using findFirst_fee_has_id by blast
  then have id: "f_id r0 = f_id af"
    by (auto simp: fee_findUnique_def dest: find_SomeD)
  from assms(1,2) show "map_option balanceAmount (fee_findUnique d' (newFeeId g))
      = Some (max (baseFee (course tb) - reduceAmounts (fee_payments d5 af)) 0)"
    by (auto simp: applyNewSwitch_def Let_def tx_Inr fee_findUnique_def
        find_updateRows_fee find_snoc fee_payments_def
        split: if_splits)
  from assms(1,2) r0 id show "map_option f_status (fee_findUnique d' (f_id af))
      = Some (if balanceAmount af = 0 \<or> finalFee af \<le> reduceAmounts (fee_payments d5 af)
              then PAID else INACTIVE)"
    by (auto simp: applyNewSwitch_def Let_def tx_Inr fee_findUnique_def
        find_updateRows_fee find_snoc fee_payments_def
        split: if_splits)
qed

lemma find_moved_payments_None:
  assumes "\<forall>p \<in> set ps. p_feeId p = t \<longrightarrow> Q p" and "f \<noteq> t"
  shows "find (\<lambda>p. p_feeId p = t)
           (updateRows (\<lambda>p. p_feeId p = t \<and> Q p) (\<lambda>p. p\<lparr>p_feeId := f\<rparr>) ps) = None"
  using assms by (induction ps) (auto simp: updateRows_def)

lemma find_fee_filter_other:
  "f \<noteq> t \<Longrightarrow>
   find (\<lambda>r. f_id r = f) (filter (\<lambda>r. f_id r \<noteq> t) xs) = find (\<lambda>r. f_id r = f) xs"
  by (induction xs) auto

lemma latest_has_row:
  assumes "history_findLatest d sid = Some lh"
  shows "history_findUnique d (h_id lh) \<noteq> None"
proof -
  from assms have "lh \<in> set (histories d)"
    by (auto simp: history_findLatest_def dest: latestOf_Some)
  then show ?thesis
    by (auto simp: history_findUnique_def find_None_iff)
qed

lemma reversePreviousSwitch_succeeds:
  assumes "reversalRowsPresent rq lh d"
    and "history_findUnique d (ed_batchHistoryId rq) \<noteq> None"
  shows "reversePreviousSwitch rq lh d =
    Inr (d\<lparr>students := updateRows (\<lambda>s. s_id s = ed_studentId rq)
                (\<lambda>s. s\<lparr>currentBatchId := fromBatchId lh\<rparr>) (students d),
            batches := updateRows (\<lambda>b. b_id b = toBatchId lh) decrement
                (updateRows (\<lambda>b. b_id b = fromBatchId lh) increment (batches d)),
            fees := feesAfterReversal lh d,
            payments := paymentsAfterReversal lh d,
            histories := filter (\<lambda>r. h_id r \<noteq> ed_batchHistoryId rq) (histories d)\<rparr>)"
proof (cases "feeIdFrom lh = feeIdTo lh")
  case True
  with assms show ?thesis
    by (auto simp: reversePreviousSwitch_def reversalRowsPresent_def Let_def tx_bind_def
        student_update_def batch_update_def history_delete_def
        batch_findUnique_def student_findUnique_def history_findUnique_def
        find_updateRows_batch feesAfterReversal_def paymentsAfterReversal_def)
next
  case False
  with assms show ?thesis
    by (auto simp: reversePreviousSwitch_def reversalRowsPresent_def Let_def tx_bind_def
        student_update_def batch_update_def history_delete_def fee_delete_def fee_update_def
        payment_updateMany_def fee_findUnique_def
        batch_findUnique_def student_findUnique_def history_findUnique_def
        find_updateRows_batch feesAfterReversal_def paymentsAfterReversal_def
        find_moved_payments_None find_fee_filter_other)
qed

lemma applyNewSwitch_invalid:
  assumes "ed_newFeeAction rq \<notin> set [''TRANSFER'', ''NEW_FEE'', ''SPLIT'']"
    and "student_findUnique d5 (ed_studentId rq) \<noteq> None"
    and "batch_findUnique d5 (currentBatchId cs) \<noteq> None"
    and "batch_findUnique d5 (ed_newToBatchId rq) \<noteq> None"
  shows "applyNewSwitch g rq tb cs af d5 =
    Inr (d5\<lparr>students := updateRows (\<lambda>s. s_id s = ed_studentId rq)
                (\<lambda>s. s\<lparr>currentBatchId := ed_newToBatchId rq\<rparr>) (students d5),
             batches := updateRows (\<lambda>b. b_id b = ed_newToBatchId rq) increment
                (updateRows (\<lambda>b. b_id b = currentBatchId cs) decrement (batches d5))\<rparr>)"
  using assms
  by (auto simp: applyNewSwitch_def Let_def tx_bind_def student_update_def batch_update_def
      batch_findUnique_def student_findUnique_def find_updateRows_batch)

section \<open>Properties of the switch and the edit\<close>

subsection \<open>Occupancy counters\<close>

text \<open>
  Claim C1, as amended. A successful \<open>switchBatch\<close> (the three fee actions are
  the only ones that succeed) whose source and target batch differ leaves the target
  batch's \<open>currentCount\<close> exactly one greater and the source batch's exactly one
  smaller. The target's counter never exceeds its \<open>slotLimit\<close> afterwards and
  stays within \<open>[0, slotLimit]\<close> if it was so before; the source's counter stays
  within \<open>[0, slotLimit]\<close> if it was so before and was at least 1.
\<close>

theorem switchBatch_counts:
  assumes "switchBatch g rq d = (d', r)" and "success r"
    and "sw_fromBatchId rq \<noteq> sw_toBatchId rq"
    and "batch_findUnique d (sw_fromBatchId rq) = Some fromBatch"
    and "batch_findUnique d (sw_toBatchId rq) = Some toBatch"
  shows "\<exists>fromBatch' toBatch'.
     batch_findUnique d' (sw_fromBatchId rq) = Some fromBatch' \<and>
     batch_findUnique d' (sw_toBatchId rq) = Some toBatch' \<and>
     currentCount toBatch' = currentCount toBatch + 1 \<and>
     currentCount fromBatch' = currentCount fromBatch - 1 \<and>
     slotLimit toBatch' = slotLimit toBatch \<and>
     slotLimit fromBatch' = slotLimit fromBatch \<and>
     currentCount toBatch' \<le> slotLimit toBatch' \<and>
     (withinLimit toBatch \<longrightarrow> withinLimit toBatch') \<and>
     (withinLimit fromBatch \<and> 1 \<le> currentCount fromBatch \<longrightarrow> withinLimit fromBatch')"
proof -
  have b: "batches d' = updateRows (\<lambda>b. b_id b = sw_toBatchId rq) increment
            (updateRows (\<lambda>b. b_id b = sw_fromBatchId rq) decrement (batches d))"
    using assms(1,2) by (rule switchBatch_success_batches)
  from assms(1,2) obtain tb where
    tb: "batch_findUnique d (sw_toBatchId rq) = Some tb" "currentCount tb < slotLimit tb"
    by (rule switchBatch_success)
  with assms(5) have lim: "currentCount toBatch < slotLimit toBatch" by simp
  have "b_id fromBatch = sw_fromBatchId rq" "b_id toBatch = sw_toBatchId rq"
    using assms(4,5) by (auto simp: batch_findUnique_def dest: find_SomeD)
  then have f: "batch_findUnique d' (sw_fromBatchId rq) = Some (decrement fromBatch)"
    and t: "batch_findUnique d' (sw_toBatchId rq) = Some (increment toBatch)"
    using assms(3,4,5) by (simp_all add: batch_findUnique_def b find_updateRows_batch)
  show ?thesis
    using lim by (simp add: f t increment_def decrement_def withinLimit_def)
qed

text \<open>The NEW_FEE switch of S1 from B1 (5 of 10) to B2 (3 of 10).\<close>

theorem switchBatch_counts_witness:
  "success (snd (switchBatch ex_gen (ex_req ''NEW_FEE'') ex_db)) \<and>
   sw_fromBatchId (ex_req ''NEW_FEE'') \<noteq> sw_toBatchId (ex_req ''NEW_FEE'') \<and>
   map_option currentCount (batch_findUnique ex_db ''B1'') = Some 5 \<and>
   map_option currentCount (batch_findUnique ex_db ''B2'') = Some 3 \<and>
   (\<exists>fromBatch' toBatch'.
      batch_findUnique (fst (switchBatch ex_gen (ex_req ''NEW_FEE'') ex_db)) ''B1''
        = Some fromBatch' \<and>
      batch_findUnique (fst (switchBatch ex_gen (ex_req ''NEW_FEE'') ex_db)) ''B2''
        = Some toBatch' \<and>
      currentCount toBatch' = 4 \<and> currentCount fromBatch' = 4 \<and>
      withinLimit toBatch' \<and> withinLimit fromBatch')"
proof -
  let ?rq = "ex_req ''NEW_FEE''"
  let ?B1 = "\<lparr>b_id = ''B1'', b_name = ''Morning'', slotLimit = 10, currentCount = 5,
         course = \<lparr>baseFee = 1200\<rparr>\<rparr>"
  let ?B2 = "\<lparr>b_id = ''B2'', b_name = ''Evening'', slotLimit = 10, currentCount = 3,
         course = \<lparr>baseFee = 800\<rparr>\<rparr>"
  have h1: "switchBatch ex_gen ?rq ex_db
      = (fst (switchBatch ex_gen ?rq ex_db), snd (switchBatch ex_gen ?rq ex_db))"
    by simp
  have h2: "success (snd (switchBatch ex_gen ?rq ex_db))"
    by (simp add: model_defs ex_defs)
  have h3: "sw_fromBatchId ?rq \<noteq> sw_toBatchId ?rq"
    by (simp add: ex_defs)
  have h4: "batch_findUnique ex_db (sw_fromBatchId ?rq) = Some ?B1"
    by (simp add: batch_findUnique_def ex_defs)
  have h5: "batch_findUnique ex_db (sw_toBatchId ?rq) = Some ?B2"
    by (simp add: batch_findUnique_def ex_defs)
  have w: "withinLimit ?B1" "withinLimit ?B2"
    by (simp_all add: withinLimit_def)
  from switchBatch_counts [OF h1 h2 h3 h4 h5] w h2 h3 h4 h5
  show ?thesis by (auto simp: ex_req_def)
qed

text \<open>
  Claim C1 as stated fails in two ways. A switch from B1 to B1 succeeds and leaves the
  counter of B1 at 5, not 6: the handler never compares the two batch ids. And with the
  counter of B1 at 0, within its limit, the switch to B2 succeeds and leaves it at -1:
  the handler checks the target's capacity only.
\<close>

theorem switchBatch_counts_counterexample:
  "success (snd (switchBatch ex_gen ex_req_same ex_db)) \<and>
   map_option currentCount (batch_findUnique ex_db (sw_toBatchId ex_req_same)) = Some 5 \<and>
   map_option currentCount
     (batch_findUnique (fst (switchBatch ex_gen ex_req_same ex_db)) (sw_toBatchId ex_req_same))
     = Some 5 \<and>
   success (snd (switchBatch ex_gen (ex_req ''TRANSFER'') ex_db_zero)) \<and>
   map_option withinLimit (batch_findUnique ex_db_zero ''B1'') = Some True \<and>
   map_option currentCount
     (batch_findUnique (fst (switchBatch ex_gen (ex_req ''TRANSFER'') ex_db_zero)) ''B1'')
     = Some (- 1)"
  by (simp add: model_defs ex_defs withinLimit_def)

subsection \<open>The NEW_FEE policy\<close>

text \<open>
  Claim C5, as amended. After a successful NEW_FEE switch the new fee has
  \<open>finalFee\<close> the target course's \<open>baseFee\<close>, \<open>balanceAmount =
  max (baseFee - totalPaid) 0\<close> (\<open>totalPaid\<close> being the handler's
  \<open>totalPaidOld\<close>) and the old fee's \<open>advanceAmount\<close>; exactly the payments of
  the old fee that are neither CANCELLED nor INACTIVE and that are recorded for the
  switched student get the new fee's id, every payment keeps its amount and status; the
  old fee's status is CANCELLED and its row is still there (the fee table grew by the
  one new row).
\<close>

theorem switchBatch_NEW_FEE:
  assumes "switchBatch g rq d = (d', r)" and "success r"
    and "sw_feeAction rq = ''NEW_FEE''"
    and "batch_findUnique d (sw_toBatchId rq) = Some toBatch"
    and "fee_findFirst d (\<lambda>f. f_studentId f = sw_studentId rq \<and> f_status f = PENDING)
           = Some oldFee"
  shows "\<exists>nf old'.
     fee_findUnique d (newFeeId g) = None \<and>
     fee_findUnique d' (newFeeId g) = Some nf \<and>
     finalFee nf = baseFee (course toBatch) \<and>
     balanceAmount nf = max (baseFee (course toBatch) - reduceAmounts (fee_payments d oldFee)) 0 \<and>
     advanceAmount nf = advanceAmount oldFee \<and>
     payments d' =
       map (\<lambda>p. if p_feeId p = f_id oldFee \<and> notCancelledOrInactive p
                     \<and> p_studentId p = sw_studentId rq
                 then p\<lparr>p_feeId := newFeeId g\<rparr> else p) (payments d) \<and>
     map amount (payments d') = map amount (payments d) \<and>
     map p_status (payments d') = map p_status (payments d) \<and>
     fee_findUnique d' (f_id oldFee) = Some old' \<and>
     f_status old' = CANCELLED \<and>
     length (fees d') = length (fees d) + 1"
proof -
  let ?paid = "reduceAmounts (fee_payments d oldFee)"
  from assms(1,2) obtain student tb fe where
    pre: "batch_findUnique d (sw_toBatchId rq) = Some tb"
      "fee_findFirst d (\<lambda>f. f_studentId f = sw_studentId rq \<and> f_status f = PENDING) = Some fe"
      "(sw_feeAction rq = ''TRANSFER'' \<and> switchTransfer g rq fe d = (d', r)) \<or>
       (sw_feeAction rq = ''NEW_FEE'' \<and>
          switchNewFee g rq tb fe (reduceAmounts (fee_payments d fe)) d = (d', r)) \<or>
       (sw_feeAction rq = ''SPLIT'' \<and>
          switchSplit g rq tb fe (reduceAmounts (fee_payments d fe)) d = (d', r))"
    by (rule switchBatch_success)
  with assms(3,4,5) have "switchNewFee g rq toBatch oldFee ?paid d = (d', r)"
    by simp
  then obtain nf uof h where
    tx: "newFeeTx g rq toBatch oldFee (max (baseFee (course toBatch) - ?paid) 0) d
           = Inr (d', nf, uof, h)"
    using assms(2) by (rule switchNewFee_success)
  note fx = newFeeTx_Inr [OF tx]
  from assms(5) obtain r0 where r0: "fee_findUnique d (f_id oldFee) = Some r0"
    using findFirst_fee_has_id by blast
  with fx(8) have ne: "f_id oldFee \<noteq> newFeeId g" by auto
  have nf: "fee_findUnique d' (newFeeId g) = Some nf"
    using fx(8) ne
    by (simp add: fee_findUnique_def fx(3) find_updateRows_fee find_snoc)
       (simp add: fx(6))
  have "f_id r0 = f_id oldFee"
    using r0 by (auto simp: fee_findUnique_def dest: find_SomeD)
  then have old: "fee_findUnique d' (f_id oldFee) = Some (r0\<lparr>f_status := CANCELLED\<rparr>)"
    using r0 by (simp add: fee_findUnique_def fx(3) find_updateRows_fee find_snoc)
  have pay: "payments d' =
       map (\<lambda>p. if p_feeId p = f_id oldFee \<and> notCancelledOrInactive p
                     \<and> p_studentId p = sw_studentId rq
                 then p\<lparr>p_feeId := newFeeId g\<rparr> else p) (payments d)"
    by (simp add: fx(4) updateRows_def conj_ac)
  have len: "length (fees d') = length (fees d) + 1"
    by (simp add: fx(3) updateRows_def)
  have am: "map amount (payments d') = map amount (payments d)"
    and st: "map p_status (payments d') = map p_status (payments d)"
    by (simp_all add: pay)
  show ?thesis
    using fx(8) nf old pay len am st by (simp add: fx(6))
qed

text \<open>Scenario B: the new fee F2 has balance 300, F1 is CANCELLED, the payment moved to F2.\<close>

theorem switchBatch_NEW_FEE_witness:
  "success (snd (switchBatch ex_gen (ex_req ''NEW_FEE'') ex_db)) \<and>
   sw_feeAction (ex_req ''NEW_FEE'') = ''NEW_FEE'' \<and>
   batch_findUnique ex_db ''B2'' = Some ex_B2 \<and>
   fee_findFirst ex_db (\<lambda>f. f_studentId f = ''S1'' \<and> f_status f = PENDING) = Some ex_F1 \<and>
   reduceAmounts (fee_payments ex_db ex_F1) = 500 \<and>
   (\<exists>nf old'.
      fee_findUnique (fst (switchBatch ex_gen (ex_req ''NEW_FEE'') ex_db)) ''F2'' = Some nf \<and>
      finalFee nf = 800 \<and> balanceAmount nf = 300 \<and> advanceAmount nf = Some 100 \<and>
      payments (fst (switchBatch ex_gen (ex_req ''NEW_FEE'') ex_db)) =
        [\<lparr>p_id = ''P1'', p_studentId = ''S1'', p_feeId = ''F2'', amount = 500,
          p_status = ''PAID''\<rparr>] \<and>
      fee_findUnique (fst (switchBatch ex_gen (ex_req ''NEW_FEE'') ex_db)) ''F1'' = Some old' \<and>
      f_status old' = CANCELLED)"
proof -
  let ?rq = "ex_req ''NEW_FEE''"
  have h1: "switchBatch ex_gen ?rq ex_db
      = (fst (switchBatch ex_gen ?rq ex_db), snd (switchBatch ex_gen ?rq ex_db))"
    by simp
  have h2: "success (snd (switchBatch ex_gen ?rq ex_db))"
    by (simp add: model_defs ex_defs)
  have h3: "sw_feeAction ?rq = ''NEW_FEE''"
    by (simp add: ex_defs)
  have h4: "batch_findUnique ex_db (sw_toBatchId ?rq) = Some ex_B2"
    by (simp add: batch_findUnique_def ex_defs)
  have h5: "fee_findFirst ex_db (\<lambda>f. f_studentId f = sw_studentId ?rq \<and> f_status f = PENDING)
      = Some ex_F1"
    by (simp add: fee_findFirst_def ex_defs)
  have p: "reduceAmounts (fee_payments ex_db ex_F1) = 500"
    by (simp add: reduceAmounts_def fee_payments_def ex_defs)
  have e: "sw_toBatchId ?rq = ''B2''" "sw_studentId ?rq = ''S1''" "newFeeId ex_gen = ''F2''"
    "f_id ex_F1 = ''F1''" "baseFee (course ex_B2) = 800" "advanceAmount ex_F1 = Some 100"
    by (simp_all add: ex_defs)
  have q: "map (\<lambda>p. if p_feeId p = ''F1'' \<and> notCancelledOrInactive p \<and> p_studentId p = ''S1''
                 then p\<lparr>p_feeId := ''F2''\<rparr> else p) (payments ex_db)
     = [\<lparr>p_id = ''P1'', p_studentId = ''S1'', p_feeId = ''F2'', amount = 500,
          p_status = ''PAID''\<rparr>]"
    by (simp add: ex_defs notCancelledOrInactive_def)
  from switchBatch_NEW_FEE [OF h1 h2 h3 h4 h5] h2 h3 h4 h5 p
  show ?thesis unfolding p e q by auto
qed

text \<open>
  Claim C5 as stated fails: \<open>updateMany\<close> also filters on \<open>studentId\<close>, so a
  payment of the old fee that is recorded for another student stays on the old fee
  although it is not CANCELLED or INACTIVE.
\<close>

theorem switchBatch_NEW_FEE_counterexample:
  "success (snd (switchBatch ex_gen (ex_req ''NEW_FEE'') ex_db_foreign)) \<and>
   fee_findFirst ex_db_foreign (\<lambda>f. f_studentId f = ''S1'' \<and> f_status f = PENDING)
     = Some ex_F1 \<and>
   fee_payments ex_db_foreign ex_F1 =
     [\<lparr>p_id = ''P1'', p_studentId = ''S1'', p_feeId = ''F1'', amount = 500,
       p_status = ''PAID''\<rparr>,
      \<lparr>p_id = ''P3'', p_studentId = ''S2'', p_feeId = ''F1'', amount = 50,
       p_status = ''PAID''\<rparr>] \<and>
   payments (fst (switchBatch ex_gen (ex_req ''NEW_FEE'') ex_db_foreign)) =
     [\<lparr>p_id = ''P1'', p_studentId = ''S1'', p_feeId = ''F2'', amount = 500,
       p_status = ''PAID''\<rparr>,
      \<lparr>p_id = ''P3'', p_studentId = ''S2'', p_feeId = ''F1'', amount = 50,
       p_status = ''PAID''\<rparr>]"
  by (simp add: model_defs ex_defs)

subsection \<open>Rejection of an overpaid SPLIT\<close>

text \<open>
  Claim C6. A SPLIT request of an existing student for which the amount paid on the open
  fee exceeds the target course's \<open>baseFee\<close> changes no table and fails with status
  code 400; when the earlier preconditions of the switch hold (the student is in the
  source batch and the target batch has room), the response is the business-rule error
  of the SPLIT policy.
\<close>

theorem switchBatch_SPLIT_overpaid:
  assumes "sw_feeAction rq = ''SPLIT''"
    and "student_findUnique d (sw_studentId rq) = Some student"
    and "batch_findUnique d (sw_toBatchId rq) = Some toBatch"
    and "fee_findFirst d (\<lambda>f. f_studentId f = sw_studentId rq \<and> f_status f = PENDING)
           = Some oldFee"
    and "baseFee (course toBatch) < reduceAmounts (fee_payments d oldFee)"
  shows "fst (switchBatch g rq d) = d \<and>
     \<not> success (snd (switchBatch g rq d)) \<and>
     statusCode (snd (switchBatch g rq d)) = 400 \<and>
     (currentBatchId student = sw_fromBatchId rq \<and> currentCount toBatch < slotLimit toBatch
        \<longrightarrow> snd (switchBatch g rq d) = overpaidResponse)"
  using assms
  by (simp add: switchBatch_def switchSplit_def sendResponse_def overpaidResponse_def Let_def)

text \<open>Scenario D: 900 paid against a course fee of 800.\<close>

theorem switchBatch_SPLIT_overpaid_witness:
  "sw_feeAction (ex_req ''SPLIT'') = ''SPLIT'' \<and>
   student_findUnique ex_db_overpaid ''S1''
     = Some \<lparr>s_id = ''S1'', s_name = ''Asha'', currentBatchId = ''B1''\<rparr> \<and>
   batch_findUnique ex_db_overpaid ''B2'' = Some ex_B2 \<and>
   fee_findFirst ex_db_overpaid (\<lambda>f. f_studentId f = ''S1'' \<and> f_status f = PENDING)
     = Some ex_F1 \<and>
   reduceAmounts (fee_payments ex_db_overpaid ex_F1) = 900 \<and>
   baseFee (course ex_B2) = 800 \<and>
   switchBatch ex_gen (ex_req ''SPLIT'') ex_db_overpaid = (ex_db_overpaid, overpaidResponse)"
proof -
  let ?rq = "ex_req ''SPLIT''"
  let ?S1 = "\<lparr>s_id = ''S1'', s_name = ''Asha'', currentBatchId = ''B1''\<rparr>"
  have h1: "sw_feeAction ?rq = ''SPLIT''"
    by (simp add: ex_defs)
  have h2: "student_findUnique ex_db_overpaid (sw_studentId ?rq) = Some ?S1"
    by (simp add: student_findUnique_def ex_defs)
  have h3: "batch_findUnique ex_db_overpaid (sw_toBatchId ?rq) = Some ex_B2"
    by (simp add: batch_findUnique_def ex_defs)
  have h4: "fee_findFirst ex_db_overpaid
      (\<lambda>f. f_studentId f = sw_studentId ?rq \<and> f_status f = PENDING) = Some ex_F1"
    by (simp add: fee_findFirst_def ex_defs)
  have p: "reduceAmounts (fee_payments ex_db_overpaid ex_F1) = 900"
    by (simp add: reduceAmounts_def fee_payments_def ex_defs)
  have h5: "baseFee (course ex_B2) < reduceAmounts (fee_payments ex_db_overpaid ex_F1)"
    by (simp add: p) (simp add: ex_B2_def)
  have e: "sw_toBatchId ?rq = ''B2''" "sw_studentId ?rq = ''S1''" "sw_fromBatchId ?rq = ''B1''"
    "baseFee (course ex_B2) = 800" "currentCount ex_B2 = 3" "slotLimit ex_B2 = 10"
    by (simp_all add: ex_defs)
  from switchBatch_SPLIT_overpaid [OF h1 h2 h3 h4 h5, of ex_gen] h1 h2 h3 h4 p
  show ?thesis unfolding e by (simp add: prod_eq_iff)
qed

subsection \<open>Only the latest switch can be edited\<close>

text \<open>
  Claim C8. When \<open>batchHistoryId\<close> is not the id of a most recent history row of
  the student (by \<open>createdAt\<close>), \<open>editBatchSwitch\<close> answers with the error
  "Only latest switch can be edited" and changes no table.
\<close>

theorem edit_not_latest_rejected:
  assumes "\<not> (\<exists>h \<in> set (histories d).
                h_id h = ed_batchHistoryId rq \<and> mostRecentFor d (ed_studentId rq) h)"
  shows "editBatchSwitch g rq d
           = (d, sendResponse 400 False ''Only latest switch can be edited'' Null)"
proof (cases "history_findLatest d (ed_studentId rq)")
  case None
  then show ?thesis by (simp add: editBatchSwitch_def)
next
  case (Some lh)
  then have "mostRecentFor d (ed_studentId rq) lh"
    by (rule history_findLatest_mostRecent)
  with assms have "h_id lh \<noteq> ed_batchHistoryId rq"
    by (auto simp: mostRecentFor_def)
  with Some show ?thesis by (simp add: editBatchSwitch_def)
qed

text \<open>Editing H1 when the later row H9 exists.\<close>

theorem edit_not_latest_rejected_witness:
  "\<not> (\<exists>h \<in> set (histories ex_db_later).
         h_id h = ed_batchHistoryId (ex_edit ''B1'' ''TRANSFER'') \<and>
         mostRecentFor ex_db_later (ed_studentId (ex_edit ''B1'' ''TRANSFER'')) h) \<and>
   map h_id (histories ex_db_later) = [''H1'', ''H9''] \<and>
   editBatchSwitch ex_gen2 (ex_edit ''B1'' ''TRANSFER'') ex_db_later
     = (ex_db_later, sendResponse 400 False ''Only latest switch can be edited'' Null)"
proof -
  have h: "\<not> (\<exists>h \<in> set (histories ex_db_later).
         h_id h = ed_batchHistoryId (ex_edit ''B1'' ''TRANSFER'') \<and>
         mostRecentFor ex_db_later (ed_studentId (ex_edit ''B1'' ''TRANSFER'')) h)"
    by (simp add: mostRecentFor_def model_defs ex_defs)
  have m: "map h_id (histories ex_db_later) = [''H1'', ''H9'']"
    by (simp add: model_defs ex_defs Let_def)
  from edit_not_latest_rejected [OF h, of ex_gen2] h m show ?thesis by simp
qed

subsection \<open>Response payloads\<close>

text \<open>
  Claim C9, as amended. Every successful \<open>switchBatch\<close> response carries a payload
  with the \<open>transferId\<close> minted for the invocation, and for NEW_FEE and SPLIT its
  \<open>batchHistory\<close> field is the history row that this invocation appended. Every
  successful \<open>editBatchSwitch\<close> response carries no payload: its data is
  \<open>null\<close>. (What the \<open>batchHistory\<close> field of a TRANSFER response holds is
  left open here.)
\<close>

theorem success_payloads:
  assumes "switchBatch g rq d = (d', r)" and "success r"
    and "editBatchSwitch g2 erq e = (e', r2)" and "success r2"
  shows "(\<exists>p. data r = Payload p \<and> pl_transferId p = transferId g \<and>
     (sw_feeAction rq \<noteq> ''TRANSFER'' \<longrightarrow>
        (\<exists>h. pl_batchHistory p = HistoryRow h \<and> histories d' = histories d @ [h] \<and>
             h_id h = newHistoryId g \<and> h_transferId h = transferId g))) \<and>
     data r2 = Null"
proof -
  from assms(3,4) have "r2 = editedResponse"
    by (rule editBatchSwitch_success)
  then have "data r2 = Null" by (simp add: editedResponse_def sendResponse_def)
  with switchBatch_success_payload [OF assms(1,2)] show ?thesis by simp
qed

text \<open>The SPLIT switch of the example and the edit of it.\<close>

theorem success_payloads_witness:
  "success (snd (switchBatch ex_gen (ex_req ''SPLIT'') ex_db)) \<and>
   success (snd (editBatchSwitch ex_gen2 (ex_edit ''B1'' ''SPLIT'') (ex_switched ''SPLIT''))) \<and>
   (\<exists>p h. data (snd (switchBatch ex_gen (ex_req ''SPLIT'') ex_db)) = Payload p \<and>
      pl_transferId p = ''T1'' \<and> pl_batchHistory p = HistoryRow h \<and>
      histories (ex_switched ''SPLIT'') = [h] \<and> h_id h = ''H1'' \<and> h_transferId h = ''T1'') \<and>
   data (snd (editBatchSwitch ex_gen2 (ex_edit ''B1'' ''SPLIT'') (ex_switched ''SPLIT''))) = Null"
proof -
  let ?sw = "switchBatch ex_gen (ex_req ''SPLIT'') ex_db"
  let ?ed = "editBatchSwitch ex_gen2 (ex_edit ''B1'' ''SPLIT'') (ex_switched ''SPLIT'')"
  have h1: "?sw = (ex_switched ''SPLIT'', snd ?sw)"
    by (simp add: ex_switched_def)
  have h2: "success (snd ?sw)"
    by (simp add: model_defs ex_defs)
  have h3: "?ed = (fst ?ed, snd ?ed)"
    by simp
  have h4: "success (snd ?ed)"
    by (simp add: model_defs ex_defs Let_def)
  have e: "sw_feeAction (ex_req ''SPLIT'') \<noteq> ''TRANSFER''" "histories ex_db = []"
    "transferId ex_gen = ''T1''" "newHistoryId ex_gen = ''H1''"
    by (simp_all add: ex_defs)
  from success_payloads [OF h1 h2 h3 h4] h2 h4 e show ?thesis by auto
qed

text \<open>
  Claim C9 as stated fails for the edit: the edit of the TRANSFER switch succeeds,
  creates the history row H2 and answers with \<open>null\<close> as data.
\<close>

theorem success_payloads_counterexample:
  "snd (editBatchSwitch ex_gen2 (ex_edit ''B1'' ''TRANSFER'') (ex_switched ''TRANSFER''))
     = \<lparr>statusCode = 200, success = True, message = ''Batch switch edited successfully'',
        data = Null\<rparr> \<and>
   map h_id (histories
     (fst (editBatchSwitch ex_gen2 (ex_edit ''B1'' ''TRANSFER'') (ex_switched ''TRANSFER''))))
     = [''H2'']"
  by (simp add: model_defs ex_defs Let_def)

subsection \<open>Switching and editing back\<close>




subsection \<open>The re-application of the edit against the policies of the switch\<close>

text \<open>
  Claim C3 fails on the code. On the state where S1 has paid 900, \<open>switchBatch\<close>
  rejects the SPLIT switch to B2 (course fee 800) and changes nothing, while the edit of
  a TRANSFER switch to B2 re-applied as SPLIT meets the same state after its reversal,
  succeeds and creates the fee F3 with \<open>finalFee = balanceAmount = 0\<close>. On the
  state with a cancelled payment, the NEW_FEE switch leaves the cancelled payment on F1
  and copies \<open>advanceAmount\<close>, while the re-application of the edit moves both
  payments to F3 and leaves \<open>advanceAmount\<close> empty.
\<close>

theorem edit_reapply_differs:
  "switchBatch ex_gen2 (ex_req ''SPLIT'') ex_db_overpaid = (ex_db_overpaid, overpaidResponse) \<and>
   snd (editBatchSwitch ex_gen2 (ex_edit ''B2'' ''SPLIT'')
          (fst (switchBatch ex_gen (ex_req ''TRANSFER'') ex_db_overpaid))) = editedResponse \<and>
   map_option (\<lambda>f. (finalFee f, balanceAmount f, f_status f))
     (fee_findUnique (fst (editBatchSwitch ex_gen2 (ex_edit ''B2'' ''SPLIT'')
          (fst (switchBatch ex_gen (ex_req ''TRANSFER'') ex_db_overpaid)))) ''F3'')
     = Some (0, 0, PENDING) \<and>
   map (\<lambda>p. (p_id p, p_feeId p))
     (payments (fst (switchBatch ex_gen2 (ex_req ''NEW_FEE'') ex_db_cancelled)))
     = [(''P1'', ''F3''), (''P2'', ''F1'')] \<and>
   map_option advanceAmount
     (fee_findUnique (fst (switchBatch ex_gen2 (ex_req ''NEW_FEE'') ex_db_cancelled)) ''F3'')
     = Some (Some 100) \<and>
   map (\<lambda>p. (p_id p, p_feeId p))
     (payments (fst (editBatchSwitch ex_gen2 (ex_edit ''B2'' ''NEW_FEE'')
          (fst (switchBatch ex_gen (ex_req ''TRANSFER'') ex_db_cancelled)))))
     = [(''P1'', ''F3''), (''P2'', ''F3'')] \<and>
   map_option advanceAmount
     (fee_findUnique (fst (editBatchSwitch ex_gen2 (ex_edit ''B2'' ''NEW_FEE'')
          (fst (switchBatch ex_gen (ex_req ''TRANSFER'') ex_db_cancelled)))) ''F3'')
     = Some None"
  by (simp add: model_defs ex_defs Let_def overpaidResponse_def editedResponse_def)

subsection \<open>The SPLIT policy\<close>

text \<open>
  Claim C4, as amended. Let \<open>allPaid\<close> be the sum of the amounts of all payments
  attributed to the old fee, whatever their status. After a successful SPLIT switch the
  new fee, stored under the fresh key, has \<open>finalFee = balanceAmount =
  max (baseFee - allPaid) 0\<close> for the target batch's course fee and status PENDING; no
  payment is touched, so the old fee's payments keep their \<open>feeId\<close>; and the old
  fee's status is PAID if its \<open>balanceAmount\<close> is 0 or \<open>allPaid\<close> reaches its
  \<open>finalFee\<close>, INACTIVE otherwise.
\<close>

theorem switchBatch_SPLIT:
  assumes "switchBatch g rq d = (d', r)" and "success r"
    and "sw_feeAction rq = ''SPLIT''"
    and "batch_findUnique d (sw_toBatchId rq) = Some toBatch"
    and "fee_findFirst d (\<lambda>f. f_studentId f = sw_studentId rq \<and> f_status f = PENDING)
           = Some oldFee"
    and "allPaid = sum_list (map amount (filter (\<lambda>p. p_feeId p = f_id oldFee) (payments d)))"
  shows "\<exists>nf old'.
     fee_findUnique d (newFeeId g) = None \<and>
     fee_findUnique d' (newFeeId g) = Some nf \<and>
     finalFee nf = max (baseFee (course toBatch) - allPaid) 0 \<and>
     balanceAmount nf = max (baseFee (course toBatch) - allPaid) 0 \<and>
     f_status nf = PENDING \<and>
     payments d' = payments d \<and>
     fee_findUnique d' (f_id oldFee) = Some old' \<and>
     f_status old' =
       (if balanceAmount oldFee = 0 \<or> finalFee oldFee \<le> allPaid then PAID else INACTIVE)"
proof -
  have p: "reduceAmounts (fee_payments d oldFee) = allPaid"
    by (simp add: reduceAmounts_all assms(6))
  note rows = switchBatch_SPLIT_rows [OF assms(1-5), unfolded p]
  from rows(4) obtain r0 where
    "fee_findUnique d' (f_id oldFee) =
        Some (r0\<lparr>f_status :=
                  (if balanceAmount oldFee = 0 \<or> finalFee oldFee \<le> allPaid
                   then PAID else INACTIVE),
                f_transferId := Some (transferId g)\<rparr>)"
    by blast
  with rows(1,2,3) show ?thesis by simp
qed

text \<open>
  The SPLIT switch on the state with a cancelled payment: 700 on the fee in all, course
  fee 800, so the new fee is 100 and F1 (final fee 1000) becomes INACTIVE.
\<close>

theorem switchBatch_SPLIT_witness:
  "success (snd (switchBatch ex_gen (ex_req ''SPLIT'') ex_db_cancelled)) \<and>
   sw_feeAction (ex_req ''SPLIT'') = ''SPLIT'' \<and>
   batch_findUnique ex_db_cancelled ''B2'' = Some ex_B2 \<and>
   fee_findFirst ex_db_cancelled (\<lambda>f. f_studentId f = ''S1'' \<and> f_status f = PENDING)
     = Some ex_F1 \<and>
   sum_list (map amount (filter (\<lambda>p. p_feeId p = ''F1'') (payments ex_db_cancelled))) = 700 \<and>
   (\<exists>nf old'.
      fee_findUnique (fst (switchBatch ex_gen (ex_req ''SPLIT'') ex_db_cancelled)) ''F2''
        = Some nf \<and>
      finalFee nf = 100 \<and> balanceAmount nf = 100 \<and> f_status nf = PENDING \<and>
      payments (fst (switchBatch ex_gen (ex_req ''SPLIT'') ex_db_cancelled))
        = payments ex_db_cancelled \<and>
      fee_findUnique (fst (switchBatch ex_gen (ex_req ''SPLIT'') ex_db_cancelled)) ''F1''
        = Some old' \<and>
      f_status old' = INACTIVE)"
proof -
  let ?rq = "ex_req ''SPLIT''"
  let ?d = ex_db_cancelled
  have h1: "switchBatch ex_gen ?rq ?d
      = (fst (switchBatch ex_gen ?rq ?d), snd (switchBatch ex_gen ?rq ?d))"
    by simp
  have h2: "success (snd (switchBatch ex_gen ?rq ?d))"
    by (simp add: model_defs ex_defs)
  have h3: "sw_feeAction ?rq = ''SPLIT''"
    by (simp add: ex_defs)
  have h4: "batch_findUnique ?d (sw_toBatchId ?rq) = Some ex_B2"
    by (simp add: batch_findUnique_def ex_defs)
  have h5: "fee_findFirst ?d (\<lambda>f. f_studentId f = sw_studentId ?rq \<and> f_status f = PENDING)
      = Some ex_F1"
    by (simp add: fee_findFirst_def ex_defs)
  have h6: "(700::int)
      = sum_list (map amount (filter (\<lambda>p. p_feeId p = f_id ex_F1) (payments ?d)))"
    by (simp add: ex_defs)
  have e: "sw_toBatchId ?rq = ''B2''" "sw_studentId ?rq = ''S1''" "newFeeId ex_gen = ''F2''"
    "f_id ex_F1 = ''F1''" "baseFee (course ex_B2) = 800" "balanceAmount ex_F1 = 500"
    "finalFee ex_F1 = 1000"
    by (simp_all add: ex_defs)
  from switchBatch_SPLIT [OF h1 h2 h3 h4 h5 h6] h2 h3 h4 h5 h6
  show ?thesis unfolding e by simp
qed

text \<open>
  Claim C4 as stated fails: on that state the amount paid without the cancelled payment
  is 500, so the claim gives the new fee \<open>max (800 - 500) 0 = 300\<close>, and the SPLIT
  switch creates it with \<open>finalFee = balanceAmount = 100\<close>.
\<close>

theorem switchBatch_SPLIT_counterexample:
  "success (snd (switchBatch ex_gen (ex_req ''SPLIT'') ex_db_cancelled)) \<and>
   fee_findFirst ex_db_cancelled (\<lambda>f. f_studentId f = ''S1'' \<and> f_status f = PENDING)
     = Some ex_F1 \<and>
   map_option (\<lambda>b. baseFee (course b)) (batch_findUnique ex_db_cancelled ''B2'') = Some 800 \<and>
   totalPaidSpec ex_db_cancelled ex_F1 = 500 \<and>
   map_option (\<lambda>f. (finalFee f, balanceAmount f))
     (fee_findUnique (fst (switchBatch ex_gen (ex_req ''SPLIT'') ex_db_cancelled)) ''F2'')
     = Some (100, 100)"
  by (simp add: model_defs ex_defs totalPaidSpec_def)

subsection \<open>The amount paid\<close>

text \<open>
  Claim C2, as amended. In \<open>switchBatch\<close> and in \<open>editBatchSwitch\<close> the amount
  paid that the fee policies use is the sum of the amounts of all payments attributed to
  the open fee, whatever their status. It shows in what the NEW_FEE and SPLIT policies
  write (TRANSFER does not use the amount): the balance of the new fee is
  \<open>max (baseFee - allPaid) 0\<close>, a SPLIT switch passes its overpayment check with
  \<open>allPaid \<le> baseFee\<close>, and SPLIT closes the open fee as PAID or INACTIVE by
  \<open>allPaid\<close>. For the switch the open fee and its payments are those of the state
  before; for the edit they are those of the state after the reversal. That sum is the
  specification's amount plus the amounts of the CANCELLED and INACTIVE payments.
\<close>

theorem totalPaid_in_handlers:
  assumes "switchBatch g rq d = (d', r)" and "success r"
    and "sw_feeAction rq \<in> set [''NEW_FEE'', ''SPLIT'']"
    and "batch_findUnique d (sw_toBatchId rq) = Some toBatch"
    and "fee_findFirst d (\<lambda>f. f_studentId f = sw_studentId rq \<and> f_status f = PENDING)
           = Some oldFee"
    and "allPaid = sum_list (map amount (filter (\<lambda>p. p_feeId p = f_id oldFee) (payments d)))"
    and "editBatchSwitch g2 erq e = (e', r2)" and "success r2"
    and "ed_newFeeAction erq \<in> set [''NEW_FEE'', ''SPLIT'']"
    and "history_findLatest e (ed_studentId erq) = Some lh"
    and "batch_findUnique e (ed_newToBatchId erq) = Some tb"
    and "reversePreviousSwitch erq lh e = Inr e5"
    and "fee_findFirst e5
           (\<lambda>f. f_studentId f = ed_studentId erq \<and> f_status f \<in> set [ACTIVE, PENDING])
           = Some activeFee"
    and "allPaid2
           = sum_list (map amount (filter (\<lambda>p. p_feeId p = f_id activeFee) (payments e5)))"
  shows "map_option balanceAmount (fee_findUnique d' (newFeeId g))
       = Some (max (baseFee (course toBatch) - allPaid) 0) \<and>
     (sw_feeAction rq = ''SPLIT'' \<longrightarrow>
        allPaid \<le> baseFee (course toBatch) \<and>
        map_option f_status (fee_findUnique d' (f_id oldFee))
          = Some (if balanceAmount oldFee = 0 \<or> finalFee oldFee \<le> allPaid
                  then PAID else INACTIVE)) \<and>
     map_option balanceAmount (fee_findUnique e' (newFeeId g2))
       = Some (max (baseFee (course tb) - allPaid2) 0) \<and>
     (ed_newFeeAction erq = ''SPLIT'' \<longrightarrow>
        map_option f_status (fee_findUnique e' (f_id activeFee))
          = Some (if balanceAmount activeFee = 0 \<or> finalFee activeFee \<le> allPaid2
                  then PAID else INACTIVE)) \<and>
     allPaid = totalPaidSpec d oldFee
       + sum_list (map amount
           (filter (\<lambda>p. p_status p = ''CANCELLED'' \<or> p_status p = ''INACTIVE'')
              (fee_payments d oldFee))) \<and>
     allPaid2 = totalPaidSpec e5 activeFee
       + sum_list (map amount
           (filter (\<lambda>p. p_status p = ''CANCELLED'' \<or> p_status p = ''INACTIVE'')
              (fee_payments e5 activeFee)))"
proof -
  have p: "reduceAmounts (fee_payments d oldFee) = allPaid"
    and p2: "reduceAmounts (fee_payments e5 activeFee) = allPaid2"
    by (simp_all add: reduceAmounts_all assms(6,14))
  have sw_bal: "map_option balanceAmount (fee_findUnique d' (newFeeId g))
       = Some (max (baseFee (course toBatch) - allPaid) 0)"
  proof (cases "sw_feeAction rq = ''SPLIT''")
    case True
    from switchBatch_SPLIT_rows(2) [OF assms(1,2) True assms(4,5)] show ?thesis
      by (simp add: p)
  next
    case False
    with assms(3) have "sw_feeAction rq = ''NEW_FEE''" by simp
    from switchBatch_NEW_FEE_row [OF assms(1,2) this assms(4,5)] show ?thesis
      by (simp add: p)
  qed
  have sw_split: "allPaid \<le> baseFee (course toBatch) \<and>
        map_option f_status (fee_findUnique d' (f_id oldFee))
          = Some (if balanceAmount oldFee = 0 \<or> finalFee oldFee \<le> allPaid
                  then PAID else INACTIVE)" if s: "sw_feeAction rq = ''SPLIT''"
  proof -
    note rows = switchBatch_SPLIT_rows(4,5) [OF assms(1,2) s assms(4,5), unfolded p]
    from rows(1) obtain r0 where
      "fee_findUnique d' (f_id oldFee) =
        Some (r0\<lparr>f_status :=
                  (if balanceAmount oldFee = 0 \<or> finalFee oldFee \<le> allPaid
                   then PAID else INACTIVE),
                f_transferId := Some (transferId g)\<rparr>)"
      by blast
    with rows(2) show ?thesis by simp
  qed
  from assms(7,8) obtain lh' tb' d5 af cs where
    ed: "history_findLatest e (ed_studentId erq) = Some lh'"
      "batch_findUnique e (ed_newToBatchId erq) = Some tb'"
      "reversePreviousSwitch erq lh' e = Inr d5"
      "fee_findFirst d5
         (\<lambda>f. f_studentId f = ed_studentId erq \<and> f_status f \<in> set [ACTIVE, PENDING]) = Some af"
      "applyNewSwitch g2 erq tb' cs af d5 = Inr e'"
    by (rule editBatchSwitch_success)
  from ed(1) assms(10) have lh: "lh' = lh" by simp
  from ed(2) assms(11) have tb: "tb' = tb" by simp
  from ed(3) assms(12) lh have d5: "d5 = e5" by simp
  from ed(4) assms(13) d5 have af: "af = activeFee" by simp
  note ap = ed(5) [unfolded tb d5 af]
  have ed_bal: "map_option balanceAmount (fee_findUnique e' (newFeeId g2))
       = Some (max (baseFee (course tb) - allPaid2) 0)"
  proof (cases "ed_newFeeAction erq = ''SPLIT''")
    case True
    from applyNewSwitch_SPLIT_rows(1) [OF ap True assms(13)] show ?thesis
      by (simp add: p2)
  next
    case False
    with assms(9) have "ed_newFeeAction erq = ''NEW_FEE''" by simp
    from applyNewSwitch_NEW_FEE_row [OF ap this] show ?thesis
      by (simp add: p2)
  qed
  have ed_split: "map_option f_status (fee_findUnique e' (f_id activeFee))
          = Some (if balanceAmount activeFee = 0 \<or> finalFee activeFee \<le> allPaid2
                  then PAID else INACTIVE)" if s: "ed_newFeeAction erq = ''SPLIT''"
    using applyNewSwitch_SPLIT_rows(2) [OF ap s assms(13)] by (simp add: p2)
  have nc: "(\<lambda>p. \<not> notCancelledOrInactive p)
      = (\<lambda>p. p_status p = ''CANCELLED'' \<or> p_status p = ''INACTIVE'')"
    by (auto simp: notCancelledOrInactive_def)
  have spec: "allPaid = totalPaidSpec d oldFee
       + sum_list (map amount
           (filter (\<lambda>p. p_status p = ''CANCELLED'' \<or> p_status p = ''INACTIVE'')
              (fee_payments d oldFee)))"
    using sum_list_split [of "fee_payments d oldFee" notCancelledOrInactive]
    by (simp add: nc assms(6) totalPaidSpec_def fee_payments_def)
  have spec2: "allPaid2 = totalPaidSpec e5 activeFee
       + sum_list (map amount
           (filter (\<lambda>p. p_status p = ''CANCELLED'' \<or> p_status p = ''INACTIVE'')
              (fee_payments e5 activeFee)))"
    using sum_list_split [of "fee_payments e5 activeFee" notCancelledOrInactive]
    by (simp add: nc assms(14) totalPaidSpec_def fee_payments_def)
  from sw_bal sw_split ed_bal ed_split spec spec2 show ?thesis by blast
qed

text \<open>
  The SPLIT switch to B2 on the state with the cancelled payment, and the edit that
  re-applies SPLIT to B2 after that state's TRANSFER switch: 700 on F1 in all.
\<close>

theorem totalPaid_in_handlers_witness:
  "success (snd (switchBatch ex_gen (ex_req ''SPLIT'') ex_db_cancelled)) \<and>
   fee_findFirst ex_db_cancelled (\<lambda>f. f_studentId f = ''S1'' \<and> f_status f = PENDING)
     = Some ex_F1 \<and>
   success (snd (editBatchSwitch ex_gen2 (ex_edit ''B2'' ''SPLIT'') ex_switched_cancelled)) \<and>
   history_findLatest ex_switched_cancelled ''S1'' = Some ex_H1_transfer \<and>
   reversePreviousSwitch (ex_edit ''B2'' ''SPLIT'') ex_H1_transfer ex_switched_cancelled
     = Inr ex_db_cancelled \<and>
   fee_findFirst ex_db_cancelled
     (\<lambda>f. f_studentId f = ''S1'' \<and> f_status f \<in> set [ACTIVE, PENDING]) = Some ex_F1 \<and>
   sum_list (map amount (filter (\<lambda>p. p_feeId p = ''F1'') (payments ex_db_cancelled))) = 700 \<and>
   totalPaidSpec ex_db_cancelled ex_F1 = 500 \<and>
   map_option balanceAmount
     (fee_findUnique (fst (switchBatch ex_gen (ex_req ''SPLIT'') ex_db_cancelled)) ''F2'')
     = Some 100 \<and>
   map_option f_status
     (fee_findUnique (fst (switchBatch ex_gen (ex_req ''SPLIT'') ex_db_cancelled)) ''F1'')
     = Some INACTIVE \<and>
   map_option balanceAmount
     (fee_findUnique
        (fst (editBatchSwitch ex_gen2 (ex_edit ''B2'' ''SPLIT'') ex_switched_cancelled)) ''F3'')
     = Some 100 \<and>
   map_option f_status
     (fee_findUnique
        (fst (editBatchSwitch ex_gen2 (ex_edit ''B2'' ''SPLIT'') ex_switched_cancelled)) ''F1'')
     = Some INACTIVE"
proof -
  let ?rq = "ex_req ''SPLIT''"
  let ?erq = "ex_edit ''B2'' ''SPLIT''"
  let ?d = ex_db_cancelled
  let ?e = ex_switched_cancelled
  let ?sw = "switchBatch ex_gen ?rq ?d"
  let ?ed = "editBatchSwitch ex_gen2 ?erq ?e"
  let ?B2 = "\<lparr>b_id = ''B2'', b_name = ''Evening'', slotLimit = 10, currentCount = 4,
         course = \<lparr>baseFee = 800\<rparr>\<rparr>"
  have h1: "?sw = (fst ?sw, snd ?sw)" by simp
  have h2: "success (snd ?sw)"
    by (simp add: model_defs ex_defs)
  have h3: "sw_feeAction ?rq \<in> set [''NEW_FEE'', ''SPLIT'']"
    by (simp add: ex_defs)
  have h4: "batch_findUnique ?d (sw_toBatchId ?rq) = Some ex_B2"
    by (simp add: batch_findUnique_def ex_defs)
  have h5: "fee_findFirst ?d (\<lambda>f. f_studentId f = sw_studentId ?rq \<and> f_status f = PENDING)
      = Some ex_F1"
    by (simp add: fee_findFirst_def ex_defs)
  have h6: "(700::int)
      = sum_list (map amount (filter (\<lambda>p. p_feeId p = f_id ex_F1) (payments ?d)))"
    by (simp add: ex_defs)
  have h7: "?ed = (fst ?ed, snd ?ed)" by simp
  have h8: "success (snd ?ed)"
    by (simp add: model_defs ex_defs Let_def)
  have h9: "ed_newFeeAction ?erq \<in> set [''NEW_FEE'', ''SPLIT'']"
    by (simp add: ex_defs)
  have h10: "history_findLatest ?e (ed_studentId ?erq) = Some ex_H1_transfer"
    by (simp add: model_defs ex_defs Let_def)
  have h11: "batch_findUnique ?e (ed_newToBatchId ?erq) = Some ?B2"
    by (simp add: model_defs ex_defs Let_def)
  have h12: "reversePreviousSwitch ?erq ex_H1_transfer ?e = Inr ?d"
    by (simp add: model_defs ex_defs Let_def)
  have h13: "fee_findFirst ?d
      (\<lambda>f. f_studentId f = ed_studentId ?erq \<and> f_status f \<in> set [ACTIVE, PENDING])
      = Some ex_F1"
    by (simp add: fee_findFirst_def ex_defs)
  have sp: "totalPaidSpec ?d ex_F1 = 500"
    by (simp add: totalPaidSpec_def fee_payments_def notCancelledOrInactive_def ex_defs)
  have e: "sw_feeAction ?rq = ''SPLIT''" "ed_newFeeAction ?erq = ''SPLIT''"
    "newFeeId ex_gen = ''F2''" "newFeeId ex_gen2 = ''F3''" "f_id ex_F1 = ''F1''"
    "baseFee (course ex_B2) = 800" "baseFee (course ?B2) = 800"
    "balanceAmount ex_F1 = 500" "finalFee ex_F1 = 1000"
    "ed_studentId ?erq = ''S1''" "sw_studentId ?rq = ''S1''"
    by (simp_all add: ex_defs)
  from totalPaid_in_handlers [OF h1 h2 h3 h4 h5 h6 h7 h8 h9 h10 h11 h12 h13 h6]
    h2 h5 h8 h10 h12 h13 h6 [symmetric] sp
  show ?thesis unfolding e by simp
qed

text \<open>
  Claim C2 as stated fails in both handlers: with a payment of 500 and a cancelled
  payment of 200 on the open fee the specification's amount is 500, and both the NEW_FEE
  switch to B2 (course fee 800) and the edit re-applying NEW_FEE to B2 create the new fee
  with balance 100, not 300.
\<close>

theorem totalPaid_counterexample:
  "fee_findFirst ex_db_cancelled (\<lambda>f. f_studentId f = ''S1'' \<and> f_status f = PENDING)
     = Some ex_F1 \<and>
   totalPaidSpec ex_db_cancelled ex_F1 = 500 \<and>
   map_option balanceAmount
     (fee_findUnique (fst (switchBatch ex_gen (ex_req ''NEW_FEE'') ex_db_cancelled)) ''F2'')
     = Some 100 \<and>
   reversePreviousSwitch (ex_edit ''B2'' ''NEW_FEE'') ex_H1_transfer ex_switched_cancelled
     = Inr ex_db_cancelled \<and>
   success (snd (editBatchSwitch ex_gen2 (ex_edit ''B2'' ''NEW_FEE'') ex_switched_cancelled)) \<and>
   map_option balanceAmount
     (fee_findUnique
        (fst (editBatchSwitch ex_gen2 (ex_edit ''B2'' ''NEW_FEE'') ex_switched_cancelled)) ''F3'')
     = Some 100"
  by (simp add: model_defs ex_defs totalPaidSpec_def Let_def)

subsection \<open>An edit with an unknown fee action\<close>

text \<open>
  Claim C10, as amended. Let the checks before the transaction pass
  (\<open>batchHistoryId\<close> is the latest history row, the new target batch exists and has
  room), let the rows that the reversal writes be there, and let the student have an
  ACTIVE or PENDING fee after the reversal, while \<open>newFeeAction\<close> is none of
  TRANSFER, NEW_FEE and SPLIT. Then the edit commits and answers with success, not with
  an invalid-fee-action error: the prior switch is reversed (student and counters, and
  the fee side when the switch had created a fee), the history row is deleted and none
  is created, the student's \<open>currentBatchId\<close> is \<open>newToBatchId\<close>, and the
  counters of the restored batch and of the new target batch are decremented and
  incremented.
\<close>

theorem edit_invalid_action_commits:
  assumes "ed_newFeeAction rq \<notin> set [''TRANSFER'', ''NEW_FEE'', ''SPLIT'']"
    and "history_findLatest d (ed_studentId rq) = Some lh"
    and "h_id lh = ed_batchHistoryId rq"
    and "batch_findUnique d (ed_newToBatchId rq) = Some tb"
    and "currentCount tb < slotLimit tb"
    and "reversalRowsPresent rq lh d"
    and "find (\<lambda>f. f_studentId f = ed_studentId rq \<and> f_status f \<in> set [ACTIVE, PENDING])
           (feesAfterReversal lh d) = Some af"
  shows "editBatchSwitch g rq d =
      (d\<lparr>students := updateRows (\<lambda>s. s_id s = ed_studentId rq)
              (\<lambda>s. s\<lparr>currentBatchId := ed_newToBatchId rq\<rparr>)
              (updateRows (\<lambda>s. s_id s = ed_studentId rq)
                 (\<lambda>s. s\<lparr>currentBatchId := fromBatchId lh\<rparr>) (students d)),
         batches := updateRows (\<lambda>b. b_id b = ed_newToBatchId rq) increment
              (updateRows (\<lambda>b. b_id b = fromBatchId lh) decrement
                (updateRows (\<lambda>b. b_id b = toBatchId lh) decrement
                  (updateRows (\<lambda>b. b_id b = fromBatchId lh) increment (batches d)))),
         fees := feesAfterReversal lh d,
         payments := paymentsAfterReversal lh d,
         histories := filter (\<lambda>r. h_id r \<noteq> ed_batchHistoryId rq) (histories d)\<rparr>,
       editedResponse) \<and>
     message (snd (editBatchSwitch g rq d)) \<noteq> ''Invalid feeAction provided'' \<and>
     map_option currentBatchId
       (student_findUnique (fst (editBatchSwitch g rq d)) (ed_studentId rq))
       = Some (ed_newToBatchId rq) \<and>
     history_findUnique (fst (editBatchSwitch g rq d)) (ed_batchHistoryId rq) = None"
proof -
  let ?d5 = "d\<lparr>students := updateRows (\<lambda>s. s_id s = ed_studentId rq)
                (\<lambda>s. s\<lparr>currentBatchId := fromBatchId lh\<rparr>) (students d),
            batches := updateRows (\<lambda>b. b_id b = toBatchId lh) decrement
                (updateRows (\<lambda>b. b_id b = fromBatchId lh) increment (batches d)),
            fees := feesAfterReversal lh d,
            payments := paymentsAfterReversal lh d,
            histories := filter (\<lambda>r. h_id r \<noteq> ed_batchHistoryId rq) (histories d)\<rparr>"
  have "history_findUnique d (ed_batchHistoryId rq) \<noteq> None"
    using latest_has_row [OF assms(2)] assms(3) by simp
  with assms(6) have rv: "reversePreviousSwitch rq lh d = Inr ?d5"
    by (rule reversePreviousSwitch_succeeds)
  from assms(6) obtain s where s: "student_findUnique d (ed_studentId rq) = Some s"
    and bf: "batch_findUnique d (fromBatchId lh) \<noteq> None"
    by (auto simp: reversalRowsPresent_def)
  from s have sid: "s_id s = ed_studentId rq"
    by (auto simp: student_findUnique_def dest: find_SomeD)
  let ?cs = "s\<lparr>currentBatchId := fromBatchId lh\<rparr>"
  have cs: "student_findUnique ?d5 (ed_studentId rq) = Some ?cs"
    using s sid by (simp add: student_findUnique_def find_updateRows_student)
  have af: "fee_findFirst ?d5
      (\<lambda>f. f_studentId f = ed_studentId rq \<and> f_status f \<in> set [ACTIVE, PENDING]) = Some af"
    using assms(7) by (simp add: fee_findFirst_def)
  have b1: "batch_findUnique ?d5 (currentBatchId ?cs) \<noteq> None"
    using bf by (simp add: batch_findUnique_def find_updateRows_batch)
  have b2: "batch_findUnique ?d5 (ed_newToBatchId rq) \<noteq> None"
    using assms(4) by (simp add: batch_findUnique_def find_updateRows_batch)
  have s5: "student_findUnique ?d5 (ed_studentId rq) \<noteq> None"
    using cs by simp
  note ap = applyNewSwitch_invalid [OF assms(1) s5 b1 b2, of g tb af]
  have tx: "editTx g rq lh tb d = Inr
      (d\<lparr>students := updateRows (\<lambda>s. s_id s = ed_studentId rq)
              (\<lambda>s. s\<lparr>currentBatchId := ed_newToBatchId rq\<rparr>)
              (updateRows (\<lambda>s. s_id s = ed_studentId rq)
                 (\<lambda>s. s\<lparr>currentBatchId := fromBatchId lh\<rparr>) (students d)),
         batches := updateRows (\<lambda>b. b_id b = ed_newToBatchId rq) increment
              (updateRows (\<lambda>b. b_id b = fromBatchId lh) decrement
                (updateRows (\<lambda>b. b_id b = toBatchId lh) decrement
                  (updateRows (\<lambda>b. b_id b = fromBatchId lh) increment (batches d)))),
         fees := feesAfterReversal lh d,
         payments := paymentsAfterReversal lh d,
         histories := filter (\<lambda>r. h_id r \<noteq> ed_batchHistoryId rq) (histories d)\<rparr>)"
    unfolding editTx_def rv using af cs ap by (simp add: tx_bind_def)
  have res: "editBatchSwitch g rq d =
      (d\<lparr>students := updateRows (\<lambda>s. s_id s = ed_studentId rq)
              (\<lambda>s. s\<lparr>currentBatchId := ed_newToBatchId rq\<rparr>)
              (updateRows (\<lambda>s. s_id s = ed_studentId rq)
                 (\<lambda>s. s\<lparr>currentBatchId := fromBatchId lh\<rparr>) (students d)),
         batches := updateRows (\<lambda>b. b_id b = ed_newToBatchId rq) increment
              (updateRows (\<lambda>b. b_id b = fromBatchId lh) decrement
                (updateRows (\<lambda>b. b_id b = toBatchId lh) decrement
                  (updateRows (\<lambda>b. b_id b = fromBatchId lh) increment (batches d)))),
         fees := feesAfterReversal lh d,
         payments := paymentsAfterReversal lh d,
         histories := filter (\<lambda>r. h_id r \<noteq> ed_batchHistoryId rq) (histories d)\<rparr>,
       editedResponse)"
    using assms(2,3,4,5) by (simp add: editBatchSwitch_def tx editedResponse_def)
  have st: "map_option currentBatchId
       (student_findUnique (fst (editBatchSwitch g rq d)) (ed_studentId rq))
       = Some (ed_newToBatchId rq)"
    using s sid by (simp add: res student_findUnique_def find_updateRows_student)
  have hi: "history_findUnique (fst (editBatchSwitch g rq d)) (ed_batchHistoryId rq) = None"
    by (simp add: res history_findUnique_def find_filter_neq_None)
  have ms: "message (snd (editBatchSwitch g rq d)) \<noteq> ''Invalid feeAction provided''"
    by (simp add: res editedResponse_def sendResponse_def)
  from res st hi ms show ?thesis by simp
qed

text \<open>
  The SPLIT switch of the example (S1 from B1 to B2, fee F2 created) edited towards B2
  with the fee action MERGE: the fee F2 and the history row are gone, F1 is PENDING
  again, and the re-application has put S1 into B2, with 4 in either batch.
\<close>

theorem edit_invalid_action_commits_witness:
  "ed_newFeeAction (ex_edit ''B2'' ''MERGE'') \<notin> set [''TRANSFER'', ''NEW_FEE'', ''SPLIT''] \<and>
   history_findLatest (ex_switched ''SPLIT'') ''S1'' = Some ex_H1 \<and>
   map_option (\<lambda>b. currentCount b < slotLimit b) (batch_findUnique (ex_switched ''SPLIT'') ''B2'')
     = Some True \<and>
   reversalRowsPresent (ex_edit ''B2'' ''MERGE'') ex_H1 (ex_switched ''SPLIT'') \<and>
   feesAfterReversal ex_H1 (ex_switched ''SPLIT'') = [ex_F1\<lparr>f_transferId := Some ''T1''\<rparr>] \<and>
   editBatchSwitch ex_gen2 (ex_edit ''B2'' ''MERGE'') (ex_switched ''SPLIT'')
     = (ex_db\<lparr>students := [\<lparr>s_id = ''S1'', s_name = ''Asha'', currentBatchId = ''B2''\<rparr>],
              batches :=
                [\<lparr>b_id = ''B1'', b_name = ''Morning'', slotLimit = 10, currentCount = 4,
                  course = \<lparr>baseFee = 1200\<rparr>\<rparr>,
                 \<lparr>b_id = ''B2'', b_name = ''Evening'', slotLimit = 10, currentCount = 4,
                  course = \<lparr>baseFee = 800\<rparr>\<rparr>],
              fees := [ex_F1\<lparr>f_transferId := Some ''T1''\<rparr>], histories := []\<rparr>,
        editedResponse)"
proof -
  let ?rq = "ex_edit ''B2'' ''MERGE''"
  let ?d = "ex_switched ''SPLIT''"
  let ?B2 = "\<lparr>b_id = ''B2'', b_name = ''Evening'', slotLimit = 10, currentCount = 4,
         course = \<lparr>baseFee = 800\<rparr>\<rparr>"
  let ?F1 = "ex_F1\<lparr>f_transferId := Some ''T1''\<rparr>"
  have h1: "ed_newFeeAction ?rq \<notin> set [''TRANSFER'', ''NEW_FEE'', ''SPLIT'']"
    by (simp add: ex_edit_def)
  have h2: "history_findLatest ?d (ed_studentId ?rq) = Some ex_H1"
    by (simp add: model_defs ex_defs Let_def)
  have h3: "h_id ex_H1 = ed_batchHistoryId ?rq"
    by (simp add: ex_defs)
  have h4: "batch_findUnique ?d (ed_newToBatchId ?rq) = Some ?B2"
    by (simp add: model_defs ex_defs Let_def)
  have h5: "currentCount ?B2 < slotLimit ?B2"
    by simp
  have h6: "reversalRowsPresent ?rq ex_H1 ?d"
    by (simp add: reversalRowsPresent_def model_defs ex_defs Let_def)
  have fr: "feesAfterReversal ex_H1 ?d = [?F1]"
    by (simp add: feesAfterReversal_def model_defs ex_defs Let_def)
  have h7: "find (\<lambda>f. f_studentId f = ed_studentId ?rq \<and> f_status f \<in> set [ACTIVE, PENDING])
      (feesAfterReversal ex_H1 ?d) = Some ?F1"
    by (simp add: fr) (simp add: ex_defs)
  have ev: "(?d\<lparr>students := updateRows (\<lambda>s. s_id s = ed_studentId ?rq)
              (\<lambda>s. s\<lparr>currentBatchId := ed_newToBatchId ?rq\<rparr>)
              (updateRows (\<lambda>s. s_id s = ed_studentId ?rq)
                 (\<lambda>s. s\<lparr>currentBatchId := fromBatchId ex_H1\<rparr>) (students ?d)),
         batches := updateRows (\<lambda>b. b_id b = ed_newToBatchId ?rq) increment
              (updateRows (\<lambda>b. b_id b = fromBatchId ex_H1) decrement
                (updateRows (\<lambda>b. b_id b = toBatchId ex_H1) decrement
                  (updateRows (\<lambda>b. b_id b = fromBatchId ex_H1) increment (batches ?d)))),
         fees := feesAfterReversal ex_H1 ?d,
         payments := paymentsAfterReversal ex_H1 ?d,
         histories := filter (\<lambda>r. h_id r \<noteq> ed_batchHistoryId ?rq) (histories ?d)\<rparr>)
      = ex_db\<lparr>students := [\<lparr>s_id = ''S1'', s_name = ''Asha'', currentBatchId = ''B2''\<rparr>],
              batches :=
                [\<lparr>b_id = ''B1'', b_name = ''Morning'', slotLimit = 10, currentCount = 4,
                  course = \<lparr>baseFee = 1200\<rparr>\<rparr>,
                 \<lparr>b_id = ''B2'', b_name = ''Evening'', slotLimit = 10, currentCount = 4,
                  course = \<lparr>baseFee = 800\<rparr>\<rparr>],
              fees := [?F1], histories := []\<rparr>"
    by (simp add: fr) (simp add: paymentsAfterReversal_def model_defs ex_defs Let_def)
  have e: "ed_studentId ?rq = ''S1''" "ed_newToBatchId ?rq = ''B2''"
    by (simp_all add: ex_edit_def)
  from edit_invalid_action_commits [OF h1 h2 h3 h4 h5 h6 h7, of ex_gen2, unfolded ev]
    h1 h2 h4 h6 fr
  show ?thesis unfolding e by simp
qed

text \<open>
  Claim C10 as stated fails: after the TRANSFER switch of the example let the fee F1 be
  paid up (status PAID). The edit of H1 towards B2 with the fee action MERGE passes the
  checks before the transaction (H1 is the latest history row, B2 has room), but the
  transaction finds no ACTIVE or PENDING fee, throws and is rolled back: no table
  changes and the answer is the server error.
\<close>

theorem edit_invalid_action_commits_counterexample:
  "ed_newFeeAction (ex_edit ''B2'' ''MERGE'') \<notin> set [''TRANSFER'', ''NEW_FEE'', ''SPLIT''] \<and>
   history_findLatest ex_switched_paid ''S1'' = Some ex_H1_transfer \<and>
   h_id ex_H1_transfer = ed_batchHistoryId (ex_edit ''B2'' ''MERGE'') \<and>
   map_option (\<lambda>b. currentCount b < slotLimit b) (batch_findUnique ex_switched_paid ''B2'')
     = Some True \<and>
   map f_status (fees ex_switched_paid) = [PAID] \<and>
   editTx ex_gen2 (ex_edit ''B2'' ''MERGE'')
     ex_H1_transfer
     \<lparr>b_id = ''B2'', b_name = ''Evening'', slotLimit = 10, currentCount = 4,
       course = \<lparr>baseFee = 800\<rparr>\<rparr> ex_switched_paid = Inl ActiveFeeMissing \<and>
   editBatchSwitch ex_gen2 (ex_edit ''B2'' ''MERGE'') ex_switched_paid
     = (ex_switched_paid, uncaught)"
  by (simp add: model_defs ex_defs Let_def)


end
